theory Spec2Isabelle
  imports Complex_Main "HOL-Library.AList"
begin

section \<open>Time\<close>

text \<open>
  A \<^verbatim>\<open>datetime\<close> is an instant with microsecond resolution and a \<^verbatim>\<open>timedelta\<close> a
  difference of two of them. Both are integers counting microseconds; Python's integers
  are unbounded, so \<^typ>\<open>int\<close> is exact.
\<close>

type_synonym datetime = int
type_synonym timedelta = int

definition seconds :: "int \<Rightarrow> timedelta" where
  "seconds n = n * 1000000"

definition minutes :: "int \<Rightarrow> timedelta" where
  "minutes n = seconds (n * 60)"

section \<open>Connection registry (connection\_manager.py)\<close>

definition HEARTBEAT_INTERVAL :: int where
  "HEARTBEAT_INTERVAL = 30"

definition HEARTBEAT_TIMEOUT :: int where
  "HEARTBEAT_TIMEOUT = 60"

definition MAX_SENDING :: nat where
  "MAX_SENDING = 50"

definition MAX_PROCESSING :: int where
  "MAX_PROCESSING = 500"

text \<open>
  The fields of \<^verbatim>\<open>ConnectionManager\<close>. The dictionaries that are only looked up are
  maps; \<^verbatim>\<open>last_heartbeat\<close> is iterated by the scanner, so it is an association list
  in insertion order, as a Python \<^verbatim>\<open>dict\<close> is. The transport is an abstract \<open>'ws\<close>.
\<close>

record 'ws ConnectionManager =
  active_connections :: "string \<rightharpoonup> 'ws"
  client_timezones :: "string \<rightharpoonup> string"
  sending_clients :: "string set"
  messages_processing :: int
  last_heartbeat :: "(string \<times> datetime) list"

definition init_manager :: "'ws ConnectionManager" where
  "init_manager = \<lparr> active_connections = Map.empty, client_timezones = Map.empty,
     sending_clients = {}, messages_processing = 0, last_heartbeat = [] \<rparr>"

definition connect :: "'ws \<Rightarrow> string \<Rightarrow> string \<Rightarrow> 'ws ConnectionManager \<Rightarrow> bool \<times> 'ws ConnectionManager" where
  "connect websocket client_id client_timezone m =
     (True, m\<lparr> active_connections := (active_connections m)(client_id \<mapsto> websocket),
               client_timezones := (client_timezones m)(client_id \<mapsto> client_timezone) \<rparr>)"

definition start_heartbeat :: "datetime \<Rightarrow> string \<Rightarrow> 'ws ConnectionManager \<Rightarrow> 'ws ConnectionManager" where
  "start_heartbeat now client_id m =
     m\<lparr> last_heartbeat := AList.update client_id now (last_heartbeat m) \<rparr>"

text \<open>
  \<^verbatim>\<open>disconnect\<close> removes the client from the four collections. The close of the
  transport may raise; every exception of it is caught and at most logged, so the
  registry after the call does not depend on it.
\<close>

definition disconnect :: "string \<Rightarrow> 'ws ConnectionManager \<Rightarrow> 'ws ConnectionManager" where
  "disconnect client_id m =
     m\<lparr> sending_clients := sending_clients m - {client_id},
        client_timezones := (client_timezones m)(client_id := None),
        last_heartbeat := AList.delete client_id (last_heartbeat m),
        active_connections := (active_connections m)(client_id := None) \<rparr>"

definition start_sending :: "string \<Rightarrow> 'ws ConnectionManager \<Rightarrow> bool \<times> 'ws ConnectionManager" where
  "start_sending client_id m =
     (if card (sending_clients m) \<ge> MAX_SENDING then (False, m)
      else (True, m\<lparr> sending_clients := insert client_id (sending_clients m) \<rparr>))"

definition stop_sending :: "string \<Rightarrow> 'ws ConnectionManager \<Rightarrow> 'ws ConnectionManager" where
  "stop_sending client_id m =
     (if client_id \<in> sending_clients m
      then m\<lparr> sending_clients := sending_clients m - {client_id} \<rparr> else m)"

definition increment_processing :: "'ws ConnectionManager \<Rightarrow> bool \<times> 'ws ConnectionManager" where
  "increment_processing m =
     (if messages_processing m \<ge> MAX_PROCESSING then (False, m)
      else (True, m\<lparr> messages_processing := messages_processing m + 1 \<rparr>))"

definition decrement_processing :: "'ws ConnectionManager \<Rightarrow> 'ws ConnectionManager" where
  "decrement_processing m =
     (if messages_processing m > 0
      then m\<lparr> messages_processing := messages_processing m - 1 \<rparr> else m)"

definition heartbeat :: "datetime \<Rightarrow> string \<Rightarrow> 'ws ConnectionManager \<Rightarrow> 'ws ConnectionManager" where
  "heartbeat now client_id m =
     m\<lparr> last_heartbeat := AList.update client_id now (last_heartbeat m) \<rparr>"

text \<open>
  One pass of \<^verbatim>\<open>_heartbeat_loop\<close>, the body of its \<^verbatim>\<open>while True\<close> up to the sleep, when
  no other task runs while the scanner is suspended in it (\<open>heartbeat_round\<close> below is the
  pass with the other tasks; for them doing nothing the two agree). \<open>stale_clients\<close> is
  the first \<^verbatim>\<open>for\<close> loop: it walks the entries of \<^verbatim>\<open>last_heartbeat\<close> and collects the
  clients that timed out and those whose ping could not be sent. \<open>send_fails\<close> tells for
  which transports \<^verbatim>\<open>send_json\<close> raises. The ping frame itself is output on the
  transport and not part of the registry.
\<close>

fun stale_clients :: "datetime \<Rightarrow> ('ws \<Rightarrow> bool) \<Rightarrow> (string \<rightharpoonup> 'ws) \<Rightarrow> (string \<times> datetime) list \<Rightarrow> string list" where
  "stale_clients current_time send_fails conns [] = []"
| "stale_clients current_time send_fails conns ((client_id, last_time) # rest) =
     (if current_time - last_time > seconds HEARTBEAT_TIMEOUT then [client_id]
      else if current_time - last_time > seconds HEARTBEAT_INTERVAL then
        (case conns client_id of
           Some ws \<Rightarrow> if send_fails ws then [client_id] else []
         | None \<Rightarrow> [])
      else [])
     @ stale_clients current_time send_fails conns rest"

definition heartbeat_pass :: "datetime \<Rightarrow> ('ws \<Rightarrow> bool) \<Rightarrow> 'ws ConnectionManager \<Rightarrow> 'ws ConnectionManager" where
  "heartbeat_pass current_time send_fails m =
     fold disconnect
       (stale_clients current_time send_fails (active_connections m) (last_heartbeat m)) m"

text \<open>The operations on the registry, and a run of a sequence of them.\<close>

datatype 'ws registry_op =
    Connect 'ws string string
  | StartHeartbeat datetime string
  | Disconnect string
  | StartSending string
  | StopSending string
  | IncrementProcessing
  | DecrementProcessing
  | Heartbeat datetime string
  | HeartbeatPass datetime "'ws \<Rightarrow> bool"

fun apply_op :: "'ws registry_op \<Rightarrow> 'ws ConnectionManager \<Rightarrow> 'ws ConnectionManager" where
  "apply_op (Connect ws c tz) m = snd (connect ws c tz m)"
| "apply_op (StartHeartbeat now c) m = start_heartbeat now c m"
| "apply_op (Disconnect c) m = disconnect c m"
| "apply_op (StartSending c) m = snd (start_sending c m)"
| "apply_op (StopSending c) m = stop_sending c m"
| "apply_op IncrementProcessing m = snd (increment_processing m)"
| "apply_op DecrementProcessing m = decrement_processing m"
| "apply_op (Heartbeat now c) m = heartbeat now c m"
| "apply_op (HeartbeatPass now send_fails) m = heartbeat_pass now send_fails m"

definition run_ops :: "'ws registry_op list \<Rightarrow> 'ws ConnectionManager \<Rightarrow> 'ws ConnectionManager" where
  "run_ops ops m = fold apply_op ops m"

subsection \<open>The scanner among the other tasks\<close>

text \<open>
  The tasks of the event loop change over only at an \<^verbatim>\<open>await\<close>. A pass of the scanner
  has two: the \<^verbatim>\<open>send_json\<close> of a ping, inside the loop over
  \<^verbatim>\<open>self.last_heartbeat.items()\<close>, and the \<^verbatim>\<open>websocket.close\<close> inside \<^verbatim>\<open>disconnect\<close>.
  \<open>during_ping k\<close> and \<open>during_close k\<close> are what the other tasks do to the registry while
  the scanner waits there for client \<open>k\<close>.

  The loop iterates over the dictionary itself. When it asks for the next entry and
  the dictionary does not have the size it had when the loop began, the iterator raises
  \<^verbatim>\<open>RuntimeError\<close>, also after the last entry; the \<^verbatim>\<open>except\<close> of the \<^verbatim>\<open>while\<close> body
  catches it and the pass ends without a single \<^verbatim>\<open>disconnect\<close>. With the keys as they
  were, the iteration goes on and reads the values as they are now. With the size kept
  and the keys changed, which entries the iterator still finds depends on the layout of
  the dictionary: \<open>relayout\<close> gives them, from the table before and after the change and
  the keys not yet visited. The iterator yields no more entries than the dictionary had
  at the start (\<open>left\<close> counts them down) and raises when it finds one more.
\<close>

record 'ws pass_env =
  ping_fails :: "'ws \<Rightarrow> bool"
  during_ping :: "string \<Rightarrow> 'ws ConnectionManager \<Rightarrow> 'ws ConnectionManager"
  during_close :: "string \<Rightarrow> 'ws ConnectionManager \<Rightarrow> 'ws ConnectionManager"
  relayout :: "(string \<times> datetime) list \<Rightarrow> (string \<times> datetime) list \<Rightarrow> string list \<Rightarrow> string list"

datatype 'ws scan_result =
    Collected "string list" "'ws ConnectionManager"
  | RuntimeError "'ws ConnectionManager"

fun scan :: "'ws pass_env \<Rightarrow> datetime \<Rightarrow> nat \<Rightarrow> string list \<Rightarrow> 'ws ConnectionManager \<Rightarrow> string list
    \<Rightarrow> 'ws scan_result" where
  "scan env current_time left [] m stale = Collected stale m"
| "scan env current_time 0 (k # ks) m stale = RuntimeError m"
| "scan env current_time (Suc left) (k # ks) m stale =
     (case map_of (last_heartbeat m) k of
        None \<Rightarrow> scan env current_time left ks m stale
      | Some last_time \<Rightarrow>
          if current_time - last_time > seconds HEARTBEAT_TIMEOUT then
            scan env current_time left ks m (stale @ [k])
          else if current_time - last_time > seconds HEARTBEAT_INTERVAL then
            (case active_connections m k of
               None \<Rightarrow> scan env current_time left ks m stale
             | Some ws \<Rightarrow>
                 (let m' = during_ping env k m;
                      stale' = (if ping_fails env ws then stale @ [k] else stale)
                  in if length (last_heartbeat m') \<noteq> length (last_heartbeat m) then
                       RuntimeError m'
                     else if map fst (last_heartbeat m') = map fst (last_heartbeat m) then
                       scan env current_time left ks m' stale'
                     else
                       scan env current_time left
                         (relayout env (last_heartbeat m) (last_heartbeat m') ks) m' stale'))
          else scan env current_time left ks m stale)"

text \<open>The second \<^verbatim>\<open>for\<close> loop. \<^verbatim>\<open>disconnect\<close> removes the client first and awaits the
  close only for a client that was in \<^verbatim>\<open>active_connections\<close>.\<close>

fun evict :: "'ws pass_env \<Rightarrow> string list \<Rightarrow> 'ws ConnectionManager \<Rightarrow> 'ws ConnectionManager" where
  "evict env [] m = m"
| "evict env (c # cs) m =
     evict env cs
       (if c \<in> dom (active_connections m) then during_close env c (disconnect c m)
        else disconnect c m)"

datatype 'ws pass_outcome =
    is_Completed: Completed (registry_after: "'ws ConnectionManager")
  | Aborted (registry_after: "'ws ConnectionManager")

definition heartbeat_round :: "'ws pass_env \<Rightarrow> datetime \<Rightarrow> 'ws ConnectionManager \<Rightarrow> 'ws pass_outcome" where
  "heartbeat_round env current_time m =
     (case scan env current_time (length (last_heartbeat m)) (map fst (last_heartbeat m)) m [] of
        Collected stale m' \<Rightarrow> Completed (evict env stale m')
      | RuntimeError m' \<Rightarrow> Aborted m')"

text \<open>
  \<^verbatim>\<open>_heartbeat_loop\<close> itself never returns; \<open>heartbeat_loop\<close> runs it for a list of
  rounds. A round is one turn of the \<^verbatim>\<open>while True\<close>: the clock read at its start, the
  pass, and the sleep of \<^verbatim>\<open>HEARTBEAT_INTERVAL\<close> seconds that follows a pass and an aborted
  pass alike, during which the other tasks run. \<open>paced\<close> says of the clock readings
  what the sleep makes of them: a round starts 30 seconds or more after the one before.
\<close>

record 'ws round =
  started :: datetime
  round_env :: "'ws pass_env"
  during_sleep :: "'ws ConnectionManager \<Rightarrow> 'ws ConnectionManager"

fun heartbeat_loop :: "'ws round list \<Rightarrow> 'ws ConnectionManager \<Rightarrow> 'ws ConnectionManager" where
  "heartbeat_loop [] m = m"
| "heartbeat_loop (r # rs) m =
     heartbeat_loop rs
       (during_sleep r (registry_after (heartbeat_round (round_env r) (started r) m)))"

fun paced :: "'ws round list \<Rightarrow> bool" where
  "paced [] = True"
| "paced [r] = True"
| "paced (r # r' # rs) =
     (started r' - started r \<ge> seconds HEARTBEAT_INTERVAL \<and> paced (r' # rs))"

section \<open>Message model and validator (message\_validator.py)\<close>

datatype MessageType = TEXT | IMAGE | VIDEO | VOICE | SYSTEM | HEARTBEAT

text \<open>The member's \<^verbatim>\<open>.value\<close>, and the lookup \<^verbatim>\<open>MessageType(s)\<close>, which raises
  \<^verbatim>\<open>ValueError\<close> (here \<open>None\<close>) for a string that is no member's value.\<close>

fun value_of :: "MessageType \<Rightarrow> string" where
  "value_of TEXT = ''text''"
| "value_of IMAGE = ''image''"
| "value_of VIDEO = ''video''"
| "value_of VOICE = ''voice''"
| "value_of SYSTEM = ''system''"
| "value_of HEARTBEAT = ''heartbeat''"

definition all_types :: "MessageType list" where
  "all_types = [TEXT, IMAGE, VIDEO, VOICE, SYSTEM, HEARTBEAT]"

definition MessageType_of :: "string \<Rightarrow> MessageType option" where
  "MessageType_of s = find (\<lambda>t. value_of t = s) all_types"

record Message =
  client_id :: string
  content :: string
  message_type :: MessageType
  client_timestamp :: datetime
  timezone :: string
  filename :: "string option"
  binary_content :: "string option"
  is_accepted :: bool
  status_message :: "string option"
  is_system :: bool

text \<open>
  What the validator takes from outside the repository: the clock
  (\<^verbatim>\<open>datetime.now()\<close>), \<^verbatim>\<open>datetime.fromisoformat\<close> (\<open>None\<close> where it raises),
  the hour of \<^verbatim>\<open>current_time.astimezone(ZoneInfo(timezone))\<close> (\<open>None\<close> where the zone
  lookup or the conversion raises) and the hour of \<^verbatim>\<open>current_time.astimezone()\<close>, the
  machine's local zone. The time stamps of the model are those for which this second
  conversion is defined: at a time stamp at either end of the range of \<^verbatim>\<open>datetime\<close>
  (the years 1 and 9999) it raises as the first does, and \<^verbatim>\<open>validate_message\<close> with it.
\<close>

record clock =
  clock_now :: datetime
  fromisoformat :: "string \<Rightarrow> datetime option"
  zone_hour :: "datetime \<Rightarrow> string \<Rightarrow> nat option"
  local_hour :: "datetime \<Rightarrow> nat"

definition current_hour :: "clock \<Rightarrow> datetime \<Rightarrow> string \<Rightarrow> nat" where
  "current_hour ck current_time tz =
     (case zone_hour ck current_time tz of
        Some h \<Rightarrow> h
      | None \<Rightarrow> local_hour ck current_time)"

text \<open>\<^verbatim>\<open>_is_time_allowed\<close>, after the hour has been read.\<close>

fun hour_allowed :: "nat \<Rightarrow> MessageType \<Rightarrow> bool \<times> string" where
  "hour_allowed h TEXT =
     (if 5 \<le> h \<and> h < 24 then (True, [])
      else (False, ''Text messages are only accepted between 5 AM and midnight''))"
| "hour_allowed h VOICE =
     (if 8 \<le> h \<and> h < 12 then (True, [])
      else (False, ''Voice messages are only accepted between 8 AM and 12 PM''))"
| "hour_allowed h VIDEO =
     (if 20 \<le> h \<and> h < 24 then (True, [])
      else (False, ''Video messages are only accepted between 8 PM and midnight''))"
| "hour_allowed h _ = (True, [])"

definition is_time_allowed :: "clock \<Rightarrow> datetime \<Rightarrow> MessageType \<Rightarrow> string \<Rightarrow> bool \<times> string" where
  "is_time_allowed ck current_time mt tz = hour_allowed (current_hour ck current_time tz) mt"

text \<open>
  An inbound frame is a JSON object. The model gives each key the type the wire format
  gives it, \<open>None\<close> for a key that is absent; \<^verbatim>\<open>binary_content\<close> is the key the session
  handler adds after a binary frame, and \<open>data_message_key\<close> is \<^verbatim>\<open>data.message\<close> of a
  heartbeat frame.
\<close>

record frame =
  type_key :: "string option"
  message_type_key :: "string option"
  content_key :: "string option"
  filename_key :: "string option"
  timestamp_key :: "string option"
  is_system_key :: "bool option"
  binary_content_key :: "string option"
  data_message_key :: "string option"

text \<open>Python's truth value of an optional string and of an optional boolean.\<close>

fun truthy :: "string option \<Rightarrow> bool" where
  "truthy None = False"
| "truthy (Some s) = (s \<noteq> [])"

fun truthy_bool :: "bool option \<Rightarrow> bool" where
  "truthy_bool None = False"
| "truthy_bool (Some b) = b"

text \<open>The \<^verbatim>\<open>ValueError\<close>s of \<^verbatim>\<open>validate_message\<close>, in the order it raises them.\<close>

datatype validation_error =
    MessageTypeRequired
  | InvalidMessageType string
  | FilenameRequired MessageType
  | EmptyContent

text \<open>\<^verbatim>\<open>str(e)\<close>. The third message formats the enum member itself, whose rendering
  depends on the interpreter's version and is the parameter \<open>fmt\<close>.\<close>

fun str_validation_error :: "(MessageType \<Rightarrow> string) \<Rightarrow> validation_error \<Rightarrow> string" where
  "str_validation_error fmt MessageTypeRequired = ''Message type is required''"
| "str_validation_error fmt (InvalidMessageType s) = ''Invalid message type: '' @ s"
| "str_validation_error fmt (FilenameRequired t) =
     ''Filename is required for '' @ fmt t @ '' messages''"
| "str_validation_error fmt EmptyContent = ''Message content cannot be empty''"

text \<open>\<^verbatim>\<open>message_data.get("type") or message_data.get("message_type", "text")\<close>\<close>

definition message_type_str :: "frame \<Rightarrow> string" where
  "message_type_str message_data =
     (case type_key message_data of
        Some t \<Rightarrow>
          if t \<noteq> [] then t
          else (case message_type_key message_data of Some s \<Rightarrow> s | None \<Rightarrow> ''text'')
      | None \<Rightarrow> (case message_type_key message_data of Some s \<Rightarrow> s | None \<Rightarrow> ''text''))"

definition parse_timestamp :: "clock \<Rightarrow> string option \<Rightarrow> datetime" where
  "parse_timestamp ck timestamp =
     (case timestamp of
        None \<Rightarrow> clock_now ck
      | Some ts \<Rightarrow>
          if ts = [] then clock_now ck
          else (case fromisoformat ck
                       (if last ts = CHR ''Z'' then butlast ts @ ''+00:00'' else ts) of
                  Some d \<Rightarrow> d
                | None \<Rightarrow> clock_now ck))"

definition is_media :: "MessageType \<Rightarrow> bool" where
  "is_media t \<longleftrightarrow> t \<in> set [IMAGE, VIDEO, VOICE]"

definition validate_message :: "clock \<Rightarrow> frame \<Rightarrow> string \<Rightarrow> string \<Rightarrow> validation_error + Message" where
  "validate_message ck message_data cid tz =
     (let mts = message_type_str message_data in
      if mts \<in> set [''system'', ''heartbeat''] \<or> truthy_bool (is_system_key message_data) then
        Inr \<lparr> client_id = cid,
              content = (case content_key message_data of Some c \<Rightarrow> c | None \<Rightarrow> []),
              message_type = SYSTEM, client_timestamp = clock_now ck, timezone = tz,
              filename = None, binary_content = None, is_accepted = True,
              status_message = None, is_system = True \<rparr>
      else if message_type_key message_data = None \<and> mts \<notin> set (map value_of all_types) then
        Inl MessageTypeRequired
      else case MessageType_of mts of
        None \<Rightarrow> Inl (InvalidMessageType mts)
      | Some mt \<Rightarrow>
          (let c = (case content_key message_data of Some c \<Rightarrow> c | None \<Rightarrow> []);
               fn = filename_key message_data in
           if is_media mt \<and> \<not> truthy fn then Inl (FilenameRequired mt)
           else if c = [] \<and> \<not> truthy fn then Inl EmptyContent
           else
             (let ts = parse_timestamp ck (timestamp_key message_data);
                  (is_allowed, rejection_message) = is_time_allowed ck ts mt tz in
              Inr \<lparr> client_id = cid,
                    content = (if is_media mt then [] else c),
                    message_type = mt, client_timestamp = ts, timezone = tz,
                    filename = fn,
                    binary_content = (if is_media mt then Some c else None),
                    is_accepted = is_allowed,
                    status_message = (if \<not> is_allowed then Some rejection_message else None),
                    is_system = False \<rparr>)))"

section \<open>Exceptions\<close>

text \<open>The exceptions the modelled code can raise, each with its \<^verbatim>\<open>str(e)\<close>.\<close>

datatype py_exn = ValueError string | TypeError string | OSError string | DbError string

fun str_exn :: "py_exn \<Rightarrow> string" where
  "str_exn (ValueError s) = s"
| "str_exn (TypeError s) = s"
| "str_exn (OSError s) = s"
| "str_exn (DbError s) = s"

section \<open>LLM client (openai\_client.py)\<close>

record OpenAIClient =
  rate_limit_hit :: bool
  rate_limit_time :: "datetime option"

definition init_client :: OpenAIClient where
  "init_client = \<lparr> rate_limit_hit = False, rate_limit_time = None \<rparr>"

definition rate_limit_duration :: timedelta where
  "rate_limit_duration = minutes 30"

text \<open>\<^verbatim>\<open>timedelta.total_seconds()\<close>: the microseconds over \<open>10\<^sup>6\<close>, as a rational where
  Python has the nearest float.\<close>

definition total_seconds :: "timedelta \<Rightarrow> rat" where
  "total_seconds d = of_int d / 1000000"

definition no_time :: py_exn where
  "no_time = TypeError (''unsupported operand type(s) for -: 'datetime.datetime' and 'NoneType'' @ [CHR 0x27])"

text \<open>\<^verbatim>\<open>is_rate_limited\<close> reads the clock and may clear the latch; it returns the answer
  and the client after the call.\<close>

definition is_rate_limited :: "datetime \<Rightarrow> OpenAIClient \<Rightarrow> py_exn + (bool \<times> OpenAIClient)" where
  "is_rate_limited now c =
     (if \<not> rate_limit_hit c then Inr (False, c)
      else case rate_limit_time c of
        None \<Rightarrow> Inl no_time
      | Some t \<Rightarrow>
          if now - t > rate_limit_duration
          then Inr (False, c\<lparr> rate_limit_hit := False, rate_limit_time := None \<rparr>)
          else Inr (True, c))"

record rate_limit_status =
  rate_limited :: bool
  time_remaining :: "rat option"

definition get_rate_limit_status :: "datetime \<Rightarrow> OpenAIClient \<Rightarrow> py_exn + rate_limit_status" where
  "get_rate_limit_status now c =
     (if \<not> rate_limit_hit c then Inr \<lparr> rate_limited = False, time_remaining = None \<rparr>
      else case rate_limit_time c of
        None \<Rightarrow> Inl no_time
      | Some t \<Rightarrow>
          (let time_elapsed = now - t;
               remaining = rate_limit_duration - time_elapsed
           in Inr \<lparr> rate_limited = True, time_remaining = Some (total_seconds remaining) \<rparr>))"

text \<open>
  What the HTTP request of \<^verbatim>\<open>get_chat_response\<close> comes to: a response with its status
  code and, for a body that parses with \<^verbatim>\<open>choices[0].message.content\<close> a string, that
  string; a timeout; or any other exception of the request.
\<close>

datatype http_outcome = Response nat "string option" | TimeoutException | RequestFailed

text \<open>
  \<^verbatim>\<open>str.strip()\<close>. A string of the model is the UTF-8 text of the Python string, and
  \<open>whitespace\<close> lists the encodings of the 29 characters for which \<^verbatim>\<open>str.isspace()\<close>
  holds: U+0009 to U+000D, U+001C to U+0020, U+0085, U+00A0, U+1680, U+2000 to U+200A,
  U+2028, U+2029, U+202F, U+205F and U+3000. \<open>lstrip_of ws\<close> removes from the front of a
  string every word of \<open>ws\<close>, whose words have one to three bytes.
\<close>

definition whitespace :: "string list" where
  "whitespace =
     [[CHR 0x09], [CHR 0x0A], [CHR 0x0B], [CHR 0x0C], [CHR 0x0D], [CHR 0x1C], [CHR 0x1D],
      [CHR 0x1E], [CHR 0x1F], [CHR 0x20], [CHR 0xC2, CHR 0x85], [CHR 0xC2, CHR 0xA0],
      [CHR 0xE1, CHR 0x9A, CHR 0x80], [CHR 0xE2, CHR 0x80, CHR 0x80],
      [CHR 0xE2, CHR 0x80, CHR 0x81], [CHR 0xE2, CHR 0x80, CHR 0x82],
      [CHR 0xE2, CHR 0x80, CHR 0x83], [CHR 0xE2, CHR 0x80, CHR 0x84],
      [CHR 0xE2, CHR 0x80, CHR 0x85], [CHR 0xE2, CHR 0x80, CHR 0x86],
      [CHR 0xE2, CHR 0x80, CHR 0x87], [CHR 0xE2, CHR 0x80, CHR 0x88],
      [CHR 0xE2, CHR 0x80, CHR 0x89], [CHR 0xE2, CHR 0x80, CHR 0x8A],
      [CHR 0xE2, CHR 0x80, CHR 0xA8], [CHR 0xE2, CHR 0x80, CHR 0xA9],
      [CHR 0xE2, CHR 0x80, CHR 0xAF], [CHR 0xE2, CHR 0x81, CHR 0x9F],
      [CHR 0xE3, CHR 0x80, CHR 0x80]]"

fun lstrip_of :: "string list \<Rightarrow> string \<Rightarrow> string" where
  "lstrip_of ws (c # d # e # s) =
     (if [c] \<in> set ws then lstrip_of ws (d # e # s)
      else if [c, d] \<in> set ws then lstrip_of ws (e # s)
      else if [c, d, e] \<in> set ws then lstrip_of ws s
      else c # d # e # s)"
| "lstrip_of ws [c, d] =
     (if [c] \<in> set ws then lstrip_of ws [d]
      else if [c, d] \<in> set ws then []
      else [c, d])"
| "lstrip_of ws [c] = (if [c] \<in> set ws then [] else [c])"
| "lstrip_of ws [] = []"

definition strip :: "string \<Rightarrow> string" where
  "strip s = rev (lstrip_of (map rev whitespace) (rev (lstrip_of whitespace s)))"

text \<open>
  \<^verbatim>\<open>get_chat_response\<close>: \<open>now_check\<close> is the clock at the rate-limit check,
  \<open>now_resp\<close> the clock when the response has arrived, \<open>post\<close> the outcome of the
  request for a prompt. The check is outside the \<^verbatim>\<open>try\<close>, so its exception leaves the
  function; every exception of the request is turned into an apology.
\<close>

definition get_chat_response ::
  "datetime \<Rightarrow> datetime \<Rightarrow> (string \<Rightarrow> http_outcome) \<Rightarrow> string \<Rightarrow> OpenAIClient
     \<Rightarrow> py_exn + (string \<times> OpenAIClient)" where
  "get_chat_response now_check now_resp post prompt c =
     (case is_rate_limited now_check c of
        Inl e \<Rightarrow> Inl e
      | Inr (True, c') \<Rightarrow> Inr (''Sorry, still rate limited. Please try again later.'', c')
      | Inr (False, c') \<Rightarrow>
          (case post prompt of
             Response code body \<Rightarrow>
               if code = 401 then
                 Inr (''Sorry, I'm having trouble with my authentication. Please try again later.'', c')
               else if code = 429 then
                 Inr (''Sorry, I'm receiving too many requests right now. Please try again in 30 minutes.'',
                      c'\<lparr> rate_limit_hit := True, rate_limit_time := Some now_resp \<rparr>)
               else if code \<noteq> 200 then
                 Inr (''Sorry, I'm having trouble processing your request. Please try again later.'', c')
               else (case body of
                       None \<Rightarrow> Inr (''Sorry, I received an invalid response. Please try again.'', c')
                     | Some text \<Rightarrow> Inr (strip text, c'))
           | TimeoutException \<Rightarrow> Inr (''Sorry, the request timed out. Please try again.'', c')
           | RequestFailed \<Rightarrow>
               Inr (''Sorry, I'm having trouble connecting to my AI service. Please try again later.'', c')))"

section \<open>Media handler (media\_handler.py)\<close>

definition media_root :: string where
  "media_root = ''media''"

definition media_types :: "(string \<times> string list) list" where
  "media_types =
     [(''image'', [''jpg'', ''jpeg'', ''png'', ''gif'']),
      (''video'', [''mp4'', ''webm'', ''mov'', ''avi'', ''mkv'', ''3gp'']),
      (''voice'', [''wav'', ''mp3'', ''m4a''])]"

text \<open>\<^verbatim>\<open>os.path.join\<close> of two parts, \<^verbatim>\<open>os.path.basename\<close> and \<^verbatim>\<open>os.path.splitext\<close> on
  POSIX paths, and \<^verbatim>\<open>str.lower\<close> on ASCII letters.\<close>

definition path_join :: "string \<Rightarrow> string \<Rightarrow> string" where
  "path_join a b =
     (if b \<noteq> [] \<and> hd b = CHR ''/'' then b
      else if a = [] \<or> last a = CHR ''/'' then a @ b
      else a @ ''/'' @ b)"

definition basename :: "string \<Rightarrow> string" where
  "basename p = rev (takeWhile (\<lambda>c. c \<noteq> CHR ''/'') (rev p))"

definition splitext :: "string \<Rightarrow> string \<times> string" where
  "splitext p =
     (let b = basename p;
          d = take (length p - length b) p;
          e = rev (takeWhile (\<lambda>c. c \<noteq> CHR ''.'') (rev b));
          stem = take (length b - length e - 1) b
      in if CHR ''.'' \<in> set b \<and> (\<exists>c \<in> set stem. c \<noteq> CHR ''.'')
         then (d @ stem, CHR ''.'' # e) else (p, []))"

definition lower_char :: "char \<Rightarrow> char" where
  "lower_char c =
     (case map_of (zip ''ABCDEFGHIJKLMNOPQRSTUVWXYZ'' ''abcdefghijklmnopqrstuvwxyz'') c of
        Some l \<Rightarrow> l
      | None \<Rightarrow> c)"

definition lower :: "string \<Rightarrow> string" where
  "lower s = map lower_char s"

definition get_media_dir :: "string \<Rightarrow> string" where
  "get_media_dir media_type = path_join media_root (media_type @ ''s'')"

definition extension :: "string \<Rightarrow> string" where
  "extension fname =
     (if CHR ''.'' \<in> set fname
      then lower (rev (takeWhile (\<lambda>c. c \<noteq> CHR ''.'') (rev fname))) else [])"

definition is_valid_extension :: "string \<Rightarrow> string \<Rightarrow> bool" where
  "is_valid_extension fname media_type \<longleftrightarrow>
     extension fname \<in> set (case map_of media_types media_type of Some exts \<Rightarrow> exts | None \<Rightarrow> [])"

definition sanitize_filename :: "string \<Rightarrow> string" where
  "sanitize_filename fname = basename fname"

text \<open>
  The \<^verbatim>\<open>content\<close> argument of \<^verbatim>\<open>save_media\<close>: a string, bytes, a dictionary, or a value
  of any other type.
\<close>

datatype media_content =
    StrContent string
  | BytesContent string
  | DictContent "(string \<times> media_content) list"
  | OtherContent

text \<open>
  What \<^verbatim>\<open>save_media\<close> takes from outside: \<^verbatim>\<open>base64.b64decode\<close> (\<open>None\<close> where it
  raises), whether \<^verbatim>\<open>os.makedirs\<close> and the write of the file go through, the formatted
  time stamp and the six random characters.
\<close>

record media_env =
  b64decode :: "string \<Rightarrow> string option"
  makedirs_ok :: bool
  write_ok :: bool
  timestamp_str :: string
  random_str :: string

text \<open>The body of the outer \<^verbatim>\<open>try\<close> of \<^verbatim>\<open>save_media\<close>: \<open>Inl\<close> is an exception that
  reaches the outer handler, \<open>Inr\<close> a \<^verbatim>\<open>return\<close>.\<close>

definition save_media_body :: "media_env \<Rightarrow> media_content \<Rightarrow> string \<Rightarrow> string \<Rightarrow> py_exn + string option" where
  "save_media_body env cont media_type fname =
     (case (case cont of
              DictContent kv \<Rightarrow> map_of kv ''content''
            | _ \<Rightarrow> Some cont) of
        None \<Rightarrow> Inr None
      | Some cont' \<Rightarrow>
          (case (case cont' of
                   StrContent s \<Rightarrow> b64decode env s
                 | BytesContent b \<Rightarrow> Some b
                 | _ \<Rightarrow> None) of
             None \<Rightarrow> Inr None
           | Some file_content \<Rightarrow>
               if file_content = [] then Inr None
               else if media_type \<notin> set (map fst media_types) then Inr None
               else if \<not> makedirs_ok env then Inl (OSError ''makedirs'')
               else
                 (let media_dir = get_media_dir media_type;
                      fname' = sanitize_filename fname in
                  if \<not> is_valid_extension fname' media_type then Inr None
                  else
                    (let (base_name, ext) = splitext fname';
                         new_filename =
                           base_name @ ''_'' @ timestamp_str env @ ''_'' @ random_str env @ ext;
                         file_path = path_join media_dir new_filename
                     in if write_ok env then Inr (Some file_path) else Inr None))))"

definition save_media :: "media_env \<Rightarrow> media_content \<Rightarrow> string \<Rightarrow> string \<Rightarrow> py_exn + string option" where
  "save_media env cont media_type fname =
     (case save_media_body env cont media_type fname of
        Inl e \<Rightarrow> Inr None
      | Inr r \<Rightarrow> Inr r)"

section \<open>Persistence (database.py)\<close>

text \<open>
  The two tables the processor writes. A transaction attempt either commits, raises
  an error whose text contains \<^verbatim>\<open>database is locked\<close>, or raises another error;
  \<open>attempts\<close> lists what the coming attempts will do, and an attempt past the end of the
  list commits. Primary keys are assigned in sequence from 1 and no row is ever deleted.
\<close>

datatype attempt = Commit | Locked string | Failed string

record message_row =
  row_id :: int
  row_client_id :: string
  row_message_type :: string
  row_content :: string
  row_client_timestamp :: datetime
  row_timezone :: string
  row_is_accepted :: bool
  row_status_message :: "string option"

record reply_row =
  reply_id :: int
  reply_message_id :: int
  reply_content :: string
  reply_type :: string
  is_delivered :: bool

record DatabaseManager =
  messages :: "message_row list"
  replies :: "reply_row list"
  attempts :: "attempt list"

definition init_db :: DatabaseManager where
  "init_db = \<lparr> messages = [], replies = [], attempts = [] \<rparr>"

text \<open>
  The retry loop shared by \<^verbatim>\<open>save_message\<close> and \<^verbatim>\<open>save_reply\<close>: \<open>n\<close> is the loop's
  \<^verbatim>\<open>attempt\<close>, starting at 0 with \<^verbatim>\<open>retries = 3\<close>. A locked database is retried while
  \<^verbatim>\<open>attempt < retries - 1\<close>; any other error, and a lock at the last attempt, is raised.
\<close>

fun retry :: "nat \<Rightarrow> attempt list \<Rightarrow> (py_exn + unit) \<times> attempt list" where
  "retry n [] = (Inr (), [])"
| "retry n (Commit # rest) = (Inr (), rest)"
| "retry n (Failed e # rest) = (Inl (DbError e), rest)"
| "retry n (Locked e # rest) =
     (if n < 3 - 1 then retry (Suc n) rest else (Inl (DbError e), rest))"

definition save_message ::
  "string \<Rightarrow> string \<Rightarrow> string \<Rightarrow> datetime \<Rightarrow> string \<Rightarrow> bool \<Rightarrow> string option \<Rightarrow> DatabaseManager
     \<Rightarrow> (py_exn + int) \<times> DatabaseManager" where
  "save_message cont mtype cid ts tz accepted status d =
     (case retry 0 (attempts d) of
        (Inl e, rest) \<Rightarrow> (Inl e, d\<lparr> attempts := rest \<rparr>)
      | (Inr _, rest) \<Rightarrow>
          (let new_id = int (length (messages d)) + 1 in
           (Inr new_id,
            d\<lparr> messages := messages d @
                  [\<lparr> row_id = new_id, row_client_id = cid, row_message_type = mtype,
                     row_content = cont, row_client_timestamp = ts, row_timezone = tz,
                     row_is_accepted = accepted, row_status_message = status \<rparr>],
               attempts := rest \<rparr>)))"

definition save_reply :: "int \<Rightarrow> string \<Rightarrow> string \<Rightarrow> DatabaseManager \<Rightarrow> (py_exn + int) \<times> DatabaseManager" where
  "save_reply mid cont rtype d =
     (case retry 0 (attempts d) of
        (Inl e, rest) \<Rightarrow> (Inl e, d\<lparr> attempts := rest \<rparr>)
      | (Inr _, rest) \<Rightarrow>
          (let new_id = int (length (replies d)) + 1 in
           (Inr new_id,
            d\<lparr> replies := replies d @
                  [\<lparr> reply_id = new_id, reply_message_id = mid, reply_content = cont,
                     reply_type = rtype, is_delivered = True \<rparr>],
               attempts := rest \<rparr>)))"

section \<open>Message processor (message\_processor.py)\<close>

text \<open>The frames the processor returns are JSON objects, kept as the dictionaries the
  code builds, key by key.\<close>

datatype json = JNull | JInt int | JStr string | JObj "(string \<times> json) list"

definition get_key :: "string \<Rightarrow> json \<Rightarrow> json option" where
  "get_key k j = (case j of JObj kv \<Rightarrow> map_of kv k | _ \<Rightarrow> None)"

definition get_data :: "string \<Rightarrow> json \<Rightarrow> json option" where
  "get_data k j = (case get_key ''data'' j of Some d \<Rightarrow> get_key k d | None \<Rightarrow> None)"

text \<open>Python's \<^verbatim>\<open>int(x)\<close> of a number (truncation towards zero) and \<^verbatim>\<open>str(n)\<close> of an
  integer.\<close>

definition py_int :: "rat \<Rightarrow> int" where
  "py_int x = (if x \<ge> 0 then \<lfloor>x\<rfloor> else \<lceil>x\<rceil>)"

fun digits :: "nat \<Rightarrow> string" where
  "digits n =
     (if n < 10 then [''0123456789'' ! n]
      else digits (n div 10) @ [''0123456789'' ! (n mod 10)])"

declare digits.simps [simp del]

definition str_int :: "int \<Rightarrow> string" where
  "str_int i = (if i < 0 then CHR ''-'' # digits (nat (- i)) else digits (nat i))"

record MessageProcessor =
  db :: DatabaseManager
  openai_client :: OpenAIClient
  processing_count :: int

definition init_processor :: MessageProcessor where
  "init_processor = \<lparr> db = init_db, openai_client = init_client, processing_count = 0 \<rparr>"

text \<open>
  What one call of \<^verbatim>\<open>process_message\<close> takes from outside: the environment of the media
  handler, the clock at the status read, at the rate-limit check of the chat request
  and at its response, and the outcome of the request.
\<close>

record proc_env =
  media :: media_env
  now_status :: datetime
  now_check :: datetime
  now_resp :: datetime
  post :: "string \<Rightarrow> http_outcome"

definition notice :: "json \<Rightarrow> json" where
  "notice body =
     JObj [(''type'', JStr ''message''),
           (''data'', JObj [(''message'', body), (''reply_type'', JStr ''text'')])]"

definition text_reply :: "int \<Rightarrow> string \<Rightarrow> json" where
  "text_reply rid cont =
     JObj [(''type'', JStr ''message''),
           (''data'', JObj [(''id'', JInt rid), (''content'', JStr cont),
                            (''reply_type'', JStr ''text'')])]"

definition media_reply :: "int \<Rightarrow> string \<Rightarrow> string \<Rightarrow> string \<Rightarrow> string \<Rightarrow> json" where
  "media_reply rid url rtype fname mime =
     JObj [(''type'', JStr ''message''),
           (''data'', JObj [(''id'', JInt rid), (''content'', JStr url),
                            (''reply_type'', JStr rtype), (''filename'', JStr fname),
                            (''mime_type'', JStr mime)])]"

text \<open>Lines 34 to 50: the content to store, which for a media message is the path the
  media handler returns.\<close>

definition content_to_save :: "media_env \<Rightarrow> Message \<Rightarrow> py_exn + string" where
  "content_to_save env msg =
     (if is_media (message_type msg) then
        if \<not> truthy (filename msg) then
          Inl (ValueError (''Filename is required for '' @ value_of (message_type msg) @ '' message''))
        else if \<not> truthy (binary_content msg) then
          Inl (ValueError (''Binary content is required for '' @ value_of (message_type msg) @ '' message''))
        else
          (case save_media env (StrContent (the (binary_content msg)))
                  (value_of (message_type msg)) (the (filename msg)) of
             Inl e \<Rightarrow> Inl e
           | Inr media_path \<Rightarrow>
               if \<not> truthy media_path then
                 Inl (ValueError (''Failed to save '' @ value_of (message_type msg) @ '' file''))
               else Inr (the media_path))
      else Inr (content msg))"

text \<open>Lines 94 to 111: the text of the reply when the client is not rate limited, and
  the client after the request.\<close>

definition reply_text :: "proc_env \<Rightarrow> Message \<Rightarrow> OpenAIClient \<Rightarrow> string \<times> OpenAIClient" where
  "reply_text env msg c =
     (case (if message_type msg = TEXT then
              get_chat_response (now_check env) (now_resp env) (post env)
                (''You are a friendly chat assistant. '' @
                 ''Please provide a natural and helpful response: '' @
                 [CHR 0x22] @ content msg @ [CHR 0x22]) c
            else Inr (''Received your '' @ value_of (message_type msg) @ '' message'', c)) of
        Inl e \<Rightarrow>
          (''Sorry, I couldn't process your request at the moment. (Received: '' @
             take 30 (content msg) @ ''...)'', c)
      | Inr (t, c') \<Rightarrow>
          (if t = [] then
             ''Received your '' @ value_of (message_type msg) @ '' message: '' @
               [CHR 0x22] @ take 50 (content msg) @ ''...'' @ [CHR 0x22]
           else t, c'))"

text \<open>Lines 128 to 182: the static media replies after the text reply, each stored
  before it is appended.\<close>

definition static_replies :: "int \<Rightarrow> Message \<Rightarrow> DatabaseManager \<Rightarrow> (py_exn + json list) \<times> DatabaseManager" where
  "static_replies message_id msg d =
     (if message_type msg \<in> set [VOICE, VIDEO, IMAGE] then
        (case save_reply message_id ''/media/static_replies/reply.mp3'' ''voice'' d of
           (Inl e, d1) \<Rightarrow> (Inl e, d1)
         | (Inr voice_reply_id, d1) \<Rightarrow>
             (let voice =
                    media_reply voice_reply_id ''/media/static_replies/reply.mp3'' ''voice''
                      ''reply.mp3'' ''audio/mpeg'' in
              if message_type msg \<in> set [VIDEO, IMAGE] then
                (case save_reply message_id ''/media/static_replies/reply.png'' ''image'' d1 of
                   (Inl e, d2) \<Rightarrow> (Inl e, d2)
                 | (Inr image_reply_id, d2) \<Rightarrow>
                     (Inr [voice,
                           media_reply image_reply_id ''/media/static_replies/reply.png''
                             ''image'' ''reply.png'' ''image/png''], d2))
              else (Inr [voice], d1)))
      else (Inr [], d))"

text \<open>The body of the \<^verbatim>\<open>try\<close> of \<^verbatim>\<open>process_message\<close>: \<open>Inl\<close> is an exception that
  reaches the handler at the end, and the processor is returned as the call leaves it
  either way. The sleep has no effect on the result.\<close>

definition process_message_body ::
  "proc_env \<Rightarrow> Message \<Rightarrow> MessageProcessor \<Rightarrow> (py_exn + json list) \<times> MessageProcessor" where
  "process_message_body env msg p =
     (if \<not> is_accepted msg then
        (Inr [notice (case status_message msg of Some s \<Rightarrow> JStr s | None \<Rightarrow> JNull)], p)
      else case content_to_save (media env) msg of
        Inl e \<Rightarrow> (Inl e, p)
      | Inr to_save \<Rightarrow>
          (case save_message to_save (value_of (message_type msg)) (client_id msg)
                  (client_timestamp msg) (timezone msg) (is_accepted msg)
                  (Some (if truthy (status_message msg) then the (status_message msg)
                         else ''Message accepted''))
                  (db p) of
             (Inl e, d1) \<Rightarrow> (Inl e, p\<lparr> db := d1 \<rparr>)
           | (Inr message_id, d1) \<Rightarrow>
               (let p1 = p\<lparr> db := d1, processing_count := processing_count p + 1 \<rparr> in
                case get_rate_limit_status (now_status env) (openai_client p1) of
                  Inl e \<Rightarrow> (Inl e, p1)
                | Inr status \<Rightarrow>
                    if rate_limited status then
                      (case time_remaining status of
                         None \<Rightarrow>
                           (Inl (TypeError (''unsupported operand type(s) for /: 'NoneType' and 'int'' @ [CHR 0x27])), p1)
                       | Some remaining \<Rightarrow>
                           (let minutes_remaining = py_int (remaining / 60) + 1;
                                text =
                                  ''System is currently busy. Please try again in '' @
                                  str_int minutes_remaining @
                                  '' minutes. (Original message: '' @ take 30 (content msg) @
                                  ''...)'' in
                            case save_reply message_id text ''text'' (db p1) of
                              (Inl e, d2) \<Rightarrow> (Inl e, p1\<lparr> db := d2 \<rparr>)
                            | (Inr rid, d2) \<Rightarrow> (Inr [text_reply rid text], p1\<lparr> db := d2 \<rparr>)))
                    else
                      (let (text, c') = reply_text env msg (openai_client p1);
                           p2 = p1\<lparr> openai_client := c' \<rparr> in
                       case save_reply message_id text ''text'' (db p2) of
                         (Inl e, d2) \<Rightarrow> (Inl e, p2\<lparr> db := d2 \<rparr>)
                       | (Inr text_reply_id, d2) \<Rightarrow>
                           (case static_replies message_id msg d2 of
                              (Inl e, d3) \<Rightarrow> (Inl e, p2\<lparr> db := d3 \<rparr>)
                            | (Inr extra, d3) \<Rightarrow>
                                (Inr (text_reply text_reply_id text # extra),
                                 p2\<lparr> db := d3 \<rparr>))))))"

definition process_message :: "proc_env \<Rightarrow> Message \<Rightarrow> MessageProcessor \<Rightarrow> json list \<times> MessageProcessor" where
  "process_message env msg p =
     (case process_message_body env msg p of
        (Inr rs, p') \<Rightarrow> (rs, p')
      | (Inl e, p') \<Rightarrow> ([notice (JStr (''Error processing message: '' @ str_exn e))], p'))"

section \<open>Session handler (chat\_server.py)\<close>

text \<open>
  One turn of the receive loop of \<^verbatim>\<open>websocket_endpoint\<close>, for a frame that has been
  decoded: the frames it writes to the client and the server after the turn. Writes to
  the transport are taken to succeed. \<open>hb_now\<close> is the clock at a pong.
\<close>

record 'ws server =
  manager :: "'ws ConnectionManager"
  processor :: MessageProcessor

definition error_frame :: "string \<Rightarrow> json" where
  "error_frame msg = JObj [(''type'', JStr ''error''), (''data'', JObj [(''message'', JStr msg)])]"

definition default_message_type :: "frame \<Rightarrow> frame" where
  "default_message_type message_data =
     (if message_type_key message_data = None
      then message_data\<lparr> message_type_key := Some ''text'' \<rparr> else message_data)"

definition handle_frame ::
  "clock \<Rightarrow> proc_env \<Rightarrow> datetime \<Rightarrow> (MessageType \<Rightarrow> string) \<Rightarrow> string \<Rightarrow> string \<Rightarrow> frame
     \<Rightarrow> 'ws server \<Rightarrow> json list \<times> 'ws server" where
  "handle_frame ck env hb_now fmt cid tz message_data sv =
     (if type_key message_data = Some ''heartbeat'' then
        (if data_message_key message_data = Some ''pong''
         then ([], sv\<lparr> manager := heartbeat hb_now cid (manager sv) \<rparr>)
         else ([], sv))
      else
        (let md = default_message_type message_data in
         if truthy_bool (is_system_key md) then ([], sv)
         else case start_sending cid (manager sv) of
           (False, m1) \<Rightarrow>
             ([error_frame ''Too many clients sending messages simultaneously (max 50). Please try again later.''],
              sv\<lparr> manager := m1 \<rparr>)
         | (True, m1) \<Rightarrow>
             (case validate_message ck md cid tz of
                Inl e \<Rightarrow>
                  ([error_frame (str_validation_error fmt e)],
                   sv\<lparr> manager := stop_sending cid m1 \<rparr>)
              | Inr msg \<Rightarrow>
                  (case increment_processing m1 of
                     (False, m2) \<Rightarrow>
                       ([error_frame ''Server at maximum message processing capacity (500). Please try again later.''],
                        sv\<lparr> manager := stop_sending cid m2 \<rparr>)
                   | (True, m2) \<Rightarrow>
                       (let (rs, p') = process_message env msg (processor sv) in
                        (rs, \<lparr> manager = stop_sending cid (decrement_processing m2),
                               processor = p' \<rparr>))))))"

section \<open>Definitions used in the statements\<close>

text \<open>The bounds of the two admission gates, as a predicate on the registry.\<close>

definition caps_inv :: "'ws ConnectionManager \<Rightarrow> bool" where
  "caps_inv m \<longleftrightarrow> finite (sending_clients m) \<and> card (sending_clients m) \<le> MAX_SENDING
     \<and> 0 \<le> messages_processing m \<and> messages_processing m \<le> MAX_PROCESSING"

text \<open>Concrete registries: \<open>senders n\<close> lets \<open>n\<close> clients with different names start
  sending; \<open>lapsed\<close> holds one client whose heartbeat started at time 0.\<close>

definition client_name :: "nat \<Rightarrow> string" where
  "client_name n = replicate n CHR ''c''"

definition senders :: "nat \<Rightarrow> nat registry_op list" where
  "senders n = map (\<lambda>k. StartSending (client_name k)) [0..<n]"

definition never_fails :: "nat \<Rightarrow> bool" where
  "never_fails ws = False"

definition lapsed :: "nat ConnectionManager" where
  "lapsed = run_ops [Connect 7 ''alice'' ''UTC'', StartHeartbeat 0 ''alice''] init_manager"

text \<open>A clock that reads hour \<open>h\<close> in every zone and parses no time stamp, and a content
  frame with the given \<^verbatim>\<open>message_type\<close>, \<^verbatim>\<open>content\<close> and \<^verbatim>\<open>filename\<close>.\<close>

definition clock_at :: "nat \<Rightarrow> clock" where
  "clock_at h = \<lparr> clock_now = 0, fromisoformat = (\<lambda>s. None),
     zone_hour = (\<lambda>t z. Some h), local_hour = (\<lambda>t. h) \<rparr>"

definition content_frame :: "string option \<Rightarrow> string \<Rightarrow> string option \<Rightarrow> frame" where
  "content_frame mt c fn = \<lparr> type_key = None, message_type_key = mt, content_key = Some c,
     filename_key = fn, timestamp_key = None, is_system_key = None,
     binary_content_key = None, data_message_key = None \<rparr>"

text \<open>The records the validator builds from three of these frames.\<close>

definition rejected_text :: Message where
  "rejected_text = \<lparr> client_id = ''c1'', content = ''hi'', message_type = TEXT, client_timestamp = 0,
             timezone = ''UTC'', filename = None, binary_content = None,
             is_accepted = False,
             status_message = Some ''Text messages are only accepted between 5 AM and midnight'',
             is_system = False \<rparr>"

definition accepted_voice :: Message where
  "accepted_voice = \<lparr> client_id = ''c1'', content = [], message_type = VOICE, client_timestamp = 0,
             timezone = ''UTC'', filename = Some ''a.mp3'', binary_content = Some ''aGk='',
             is_accepted = True, status_message = None, is_system = False \<rparr>"

definition rejected_video :: Message where
  "rejected_video = \<lparr> client_id = ''c1'', content = [], message_type = VIDEO, client_timestamp = 0,
             timezone = ''UTC'', filename = Some ''a.mp4'', binary_content = Some ''aGk='',
             is_accepted = False,
             status_message = Some ''Video messages are only accepted between 8 PM and midnight'',
             is_system = False \<rparr>"

definition accepted_text :: Message where
  "accepted_text = \<lparr> client_id = ''c1'', content = ''hi'', message_type = TEXT, client_timestamp = 0,
             timezone = ''UTC'', filename = None, binary_content = None,
             is_accepted = True, status_message = None, is_system = False \<rparr>"

definition idle_server :: "nat server" where
  "idle_server = \<lparr> manager = init_manager, processor = init_processor \<rparr>"

text \<open>
  Concrete inputs for the processor: a request that is always answered with status 429,
  the client as that answer leaves it at time 0, a decoder that yields the bytes \<open>hi\<close>
  and one that rejects every string, media environments in which every step succeeds,
  in which the write fails and in which decoding fails, and a processor whose client is
  latched.
\<close>

definition always_429 :: "string \<Rightarrow> http_outcome" where
  "always_429 prompt = Response 429 None"

definition latched :: OpenAIClient where
  "latched = \<lparr> rate_limit_hit = True, rate_limit_time = Some 0 \<rparr>"

definition decode_hi :: "string \<Rightarrow> string option" where
  "decode_hi s = Some ''hi''"

definition decode_none :: "string \<Rightarrow> string option" where
  "decode_none s = None"

definition disk :: media_env where
  "disk = \<lparr> b64decode = decode_hi, makedirs_ok = True, write_ok = True,
            timestamp_str = ''20250101_120000'', random_str = ''abc123'' \<rparr>"

definition full_disk :: media_env where
  "full_disk = \<lparr> b64decode = decode_hi, makedirs_ok = True, write_ok = False,
            timestamp_str = ''20250101_120000'', random_str = ''abc123'' \<rparr>"

definition strict_disk :: media_env where
  "strict_disk = \<lparr> b64decode = decode_none, makedirs_ok = True, write_ok = True,
            timestamp_str = ''20250101_120000'', random_str = ''abc123'' \<rparr>"

definition env_at :: "datetime \<Rightarrow> proc_env" where
  "env_at t = \<lparr> media = disk, now_status = t, now_check = t, now_resp = t, post = always_429 \<rparr>"

definition busy_processor :: MessageProcessor where
  "busy_processor = init_processor\<lparr> openai_client := latched \<rparr>"

definition accepted_video :: Message where
  "accepted_video = \<lparr> client_id = ''c1'', content = [], message_type = VIDEO, client_timestamp = 0,
             timezone = ''UTC'', filename = Some ''a.mp4'', binary_content = Some ''aGk='',
             is_accepted = True, status_message = None, is_system = False \<rparr>"

text \<open>
  \<open>writes_ok n as\<close>: the next \<open>n\<close> writes to the database go through, each within its
  three attempts, when \<open>as\<close> is what the coming attempts do.
\<close>

fun writes_ok :: "nat \<Rightarrow> attempt list \<Rightarrow> bool" where
  "writes_ok 0 as = True"
| "writes_ok (Suc n) as =
     (case retry 0 as of (Inr u, rest) \<Rightarrow> writes_ok n rest | (Inl e, rest) \<Rightarrow> False)"

text \<open>
  Concrete inputs for the scanner: a registry with alice, whose heartbeat started at
  time 0, and bob, whose heartbeat started at 30 s; a pass during which no other task
  runs; one during which carol's session starts while a ping is awaited; one during
  which other sessions pass the admission gates; and a round of the loop with no other
  task running.
\<close>

definition quiet_env :: "('ws \<Rightarrow> bool) \<Rightarrow> 'ws pass_env" where
  "quiet_env sf = \<lparr> ping_fails = sf, during_ping = (\<lambda>k m. m), during_close = (\<lambda>k m. m),
     relayout = (\<lambda>before after ks. ks) \<rparr>"

definition crowd :: "nat ConnectionManager" where
  "crowd = run_ops [Connect 7 ''alice'' ''UTC'', StartHeartbeat 0 ''alice'',
                    Connect 8 ''bob'' ''UTC'', StartHeartbeat (seconds 30) ''bob''] init_manager"

definition racing_env :: "nat pass_env" where
  "racing_env = \<lparr> ping_fails = never_fails,
     during_ping = (\<lambda>k m. start_heartbeat (seconds 61) ''carol'' (snd (connect 9 ''carol'' ''UTC'' m))),
     during_close = (\<lambda>k m. m), relayout = (\<lambda>before after ks. ks) \<rparr>"

definition busy_env :: "nat pass_env" where
  "busy_env = \<lparr> ping_fails = never_fails,
     during_ping = (\<lambda>k m. snd (start_sending ''carol'' m)),
     during_close = (\<lambda>k m. decrement_processing m), relayout = (\<lambda>before after ks. ks) \<rparr>"

definition round_at :: "datetime \<Rightarrow> nat round" where
  "round_at t = \<lparr> started = t, round_env = quiet_env never_fails, during_sleep = (\<lambda>m. m) \<rparr>"

section \<open>The admission gates\<close>

lemma disconnect_caps: "caps_inv m \<Longrightarrow> caps_inv (disconnect c m)"
  unfolding caps_inv_def disconnect_def
  by (auto intro: order_trans [OF card_Diff1_le])

lemma fold_disconnect_caps: "caps_inv m \<Longrightarrow> caps_inv (fold disconnect cs m)"
  by (induction cs arbitrary: m) (simp_all add: disconnect_caps)

lemma apply_op_caps:
  assumes "caps_inv m"
  shows "caps_inv (apply_op x m)"
proof (cases x)
  case (Disconnect c)
  then show ?thesis using assms by (simp add: disconnect_caps)
next
  case (StartSending c)
  then show ?thesis using assms
    by (auto simp: caps_inv_def start_sending_def card_insert_if)
next
  case (StopSending c)
  then show ?thesis using assms
    by (auto simp: caps_inv_def stop_sending_def intro: order_trans [OF card_Diff1_le])
next
  case (HeartbeatPass now sf)
  then show ?thesis using assms
    by (simp add: heartbeat_pass_def fold_disconnect_caps)
qed (use assms in \<open>auto simp: caps_inv_def connect_def start_heartbeat_def
      increment_processing_def decrement_processing_def heartbeat_def\<close>)

lemma run_ops_caps: "caps_inv m \<Longrightarrow> caps_inv (run_ops ops m)"
  unfolding run_ops_def
  by (induction ops arbitrary: m) (simp_all add: apply_op_caps)

lemma init_caps: "caps_inv init_manager"
  by (simp add: caps_inv_def init_manager_def MAX_PROCESSING_def)

lemma inj_client_name: "inj client_name"
  by (rule injI) (metis client_name_def length_replicate)

lemma card_client_names: "card (client_name ` {..<n}) = n"
  by (simp add: card_image inj_client_name [THEN inj_on_subset])

lemma run_senders:
  "n \<le> 50 \<Longrightarrow> run_ops (senders n) init_manager =
     init_manager\<lparr> sending_clients := client_name ` {..<n} \<rparr>"
proof (induction n)
  case 0
  then show ?case by (simp add: senders_def run_ops_def init_manager_def)
next
  case (Suc n)
  then have "run_ops (senders n) init_manager =
     init_manager\<lparr> sending_clients := client_name ` {..<n} \<rparr>" by simp
  moreover have "n < MAX_SENDING" using Suc.prems by (simp add: MAX_SENDING_def)
  ultimately show ?case
    by (simp add: senders_def run_ops_def start_sending_def card_client_names lessThan_Suc)
qed

lemma run_increments:
  "messages_processing m + int n \<le> 500 \<Longrightarrow>
     run_ops (replicate n IncrementProcessing) m =
     m\<lparr> messages_processing := messages_processing m + int n \<rparr>"
proof (induction n arbitrary: m)
  case 0
  then show ?case by (simp add: run_ops_def)
next
  case (Suc n)
  then show ?case
    by (simp add: run_ops_def increment_processing_def MAX_PROCESSING_def)
qed

text \<open>
  C7. After any sequence of registry operations from the empty registry, at most 50
  clients are marked sending and the processing counter lies in [0, 500]. Acquiring at
  either cap returns false and leaves the registry as it was, and a release at zero
  leaves it as it was.
\<close>

theorem registry_caps:
  fixes m :: "'ws ConnectionManager" and ops :: "'ws registry_op list"
  shows "card (sending_clients (run_ops ops init_manager)) \<le> 50
     \<and> 0 \<le> messages_processing (run_ops ops init_manager)
     \<and> messages_processing (run_ops ops init_manager) \<le> 500
     \<and> (card (sending_clients m) \<ge> 50 \<longrightarrow> start_sending c m = (False, m))
     \<and> (messages_processing m \<ge> 500 \<longrightarrow> increment_processing m = (False, m))
     \<and> (messages_processing m \<le> 0 \<longrightarrow> decrement_processing m = m)"
proof -
  have "caps_inv (run_ops ops (init_manager :: 'ws ConnectionManager))"
    by (rule run_ops_caps [OF init_caps])
  then show ?thesis
    by (simp add: caps_inv_def MAX_SENDING_def MAX_PROCESSING_def start_sending_def
        increment_processing_def decrement_processing_def)
qed

theorem registry_caps_witness:
  "card (sending_clients (run_ops (senders 50) init_manager)) \<ge> 50
   \<and> start_sending (client_name 50) (run_ops (senders 50) init_manager)
       = (False, run_ops (senders 50) init_manager)
   \<and> messages_processing (run_ops (replicate 500 IncrementProcessing) (init_manager :: nat ConnectionManager)) \<ge> 500
   \<and> increment_processing (run_ops (replicate 500 IncrementProcessing) (init_manager :: nat ConnectionManager))
       = (False, run_ops (replicate 500 IncrementProcessing) init_manager)
   \<and> messages_processing (init_manager :: nat ConnectionManager) \<le> 0
   \<and> decrement_processing (init_manager :: nat ConnectionManager) = init_manager"
proof -
  have a: "card (sending_clients (run_ops (senders 50) init_manager)) \<ge> 50"
    by (simp add: run_senders card_client_names)
  have b: "messages_processing (run_ops (replicate 500 IncrementProcessing) (init_manager :: nat ConnectionManager)) \<ge> 500"
    by (simp add: run_increments init_manager_def)
  have c: "messages_processing (init_manager :: nat ConnectionManager) \<le> 0"
    by (simp add: init_manager_def)
  show ?thesis
    using a b c
      registry_caps [of "[]" "run_ops (senders 50) init_manager" "client_name 50"]
      registry_caps [of "[]" "run_ops (replicate 500 IncrementProcessing) init_manager" "client_name 50"]
      registry_caps [of "[]" "init_manager :: nat ConnectionManager" "client_name 50"]
    by blast
qed

section \<open>The heartbeat scanner\<close>

lemma disconnect_keeps_absent:
  "active_connections m c = None \<Longrightarrow> active_connections (disconnect c' m) c = None"
  by (simp add: disconnect_def)

lemma fold_disconnect_keeps_absent:
  "active_connections m c = None \<Longrightarrow> active_connections (fold disconnect cs m) c = None"
  by (induction cs arbitrary: m) (simp_all add: disconnect_keeps_absent)

lemma apply_op_keeps_absent:
  assumes "active_connections m c = None" and "\<forall>ws tz. x \<noteq> Connect ws c tz"
  shows "active_connections (apply_op x m) c = None"
  using assms
  by (cases x)
    (auto simp: connect_def start_heartbeat_def disconnect_def start_sending_def
      stop_sending_def increment_processing_def decrement_processing_def heartbeat_def
      heartbeat_pass_def fold_disconnect_keeps_absent)

lemma run_ops_keeps_absent:
  "active_connections m c = None \<Longrightarrow> \<forall>ws tz. Connect ws c tz \<notin> set ops \<Longrightarrow>
     active_connections (run_ops ops m) c = None"
  unfolding run_ops_def
proof (induction ops arbitrary: m)
  case Nil
  then show ?case by simp
next
  case (Cons x ops)
  have "active_connections (apply_op x m) c = None"
    using Cons.prems by (intro apply_op_keeps_absent) auto
  then show ?case using Cons by simp
qed

lemma crowd_fields:
  "last_heartbeat crowd = [(''alice'', 0), (''bob'', seconds 30)]"
  "active_connections crowd ''alice'' = Some 7" "active_connections crowd ''bob'' = Some 8"
  by (simp_all add: crowd_def run_ops_def connect_def start_heartbeat_def init_manager_def)

lemma lapsed_fields:
  "last_heartbeat lapsed = [(''alice'', 0)]" "active_connections lapsed ''alice'' = Some 7"
  by (simp_all add: lapsed_def run_ops_def connect_def start_heartbeat_def init_manager_def)

lemma quiet_env_fields:
  "ping_fails (quiet_env sf) = sf" "during_ping (quiet_env sf) k m = m"
  "during_close (quiet_env sf) k m = m" "relayout (quiet_env sf) before after ks = ks"
  by (simp_all add: quiet_env_def)

text \<open>With no other task running, the pass among the tasks is the plain pass.\<close>

lemma scan_quiet:
  "\<forall>(k, v) \<in> set es. map_of (last_heartbeat m) k = Some v \<Longrightarrow> length es \<le> left \<Longrightarrow>
     scan (quiet_env sf) now left (map fst es) m stale =
       Collected (stale @ stale_clients now sf (active_connections m) es) m"
proof (induction es arbitrary: left stale)
  case Nil
  then show ?case by simp
next
  case (Cons e es)
  obtain k v where e: "e = (k, v)" by (cases e)
  obtain l where l: "left = Suc l" and len: "length es \<le> l"
    using Cons.prems(2) by (cases left) auto
  have v: "map_of (last_heartbeat m) k = Some v"
    using Cons.prems(1) e by simp
  have rest: "\<forall>(k, v) \<in> set es. map_of (last_heartbeat m) k = Some v"
    using Cons.prems(1) by simp
  note ih = Cons.IH [OF rest len]
  show ?case
    by (simp add: e l v ih quiet_env_fields Let_def split: option.splits)
qed

lemma evict_quiet: "evict (quiet_env sf) cs m = fold disconnect cs m"
  by (induction cs arbitrary: m) (simp_all add: quiet_env_fields)

lemma quiet_round:
  assumes "distinct (map fst (last_heartbeat m))"
  shows "heartbeat_round (quiet_env sf) now m = Completed (heartbeat_pass now sf m)"
proof -
  have "\<forall>(k, v) \<in> set (last_heartbeat m). map_of (last_heartbeat m) k = Some v"
    using assms by auto
  then show ?thesis
    by (simp add: heartbeat_round_def heartbeat_pass_def scan_quiet evict_quiet)
qed

lemma racing_round:
  "heartbeat_round racing_env (seconds 61) crowd =
     Aborted (start_heartbeat (seconds 61) ''carol'' (snd (connect 9 ''carol'' ''UTC'' crowd)))"
  by (simp add: heartbeat_round_def crowd_fields racing_env_def seconds_def
      HEARTBEAT_TIMEOUT_def HEARTBEAT_INTERVAL_def start_heartbeat_def connect_def Let_def)

lemma round_45:
  "heartbeat_round (quiet_env never_fails) (seconds 45) lapsed = Completed lapsed"
  by (simp add: heartbeat_round_def lapsed_fields quiet_env_def seconds_def
      HEARTBEAT_TIMEOUT_def HEARTBEAT_INTERVAL_def never_fails_def Let_def)

lemma round_75:
  "heartbeat_round (quiet_env never_fails) (seconds 75) lapsed = Completed (disconnect ''alice'' lapsed)"
  by (simp add: heartbeat_round_def lapsed_fields quiet_env_def seconds_def
      HEARTBEAT_TIMEOUT_def HEARTBEAT_INTERVAL_def never_fails_def Let_def dom_def)

text \<open>
  C8, as stated, fails, in two ways. At a pass 61 seconds after alice's last heartbeat,
  carol's session starts while the ping to bob is awaited: the dictionary has changed
  size, the loop over it raises, and the pass ends with alice marked stale and still in
  \<open>active_connections\<close>. And with the scanner undisturbed: after its pass at 45 s alice
  is in \<open>active_connections\<close>, and the next pass, which evicts her, starts at 75 s at the
  earliest, so from 60 s to 75 s she is in the live set.
\<close>

theorem interrupted_pass_counterexample:
  "map_of (last_heartbeat crowd) ''alice'' = Some 0
   \<and> seconds 61 - 0 > seconds 60
   \<and> \<not> is_Completed (heartbeat_round racing_env (seconds 61) crowd)
   \<and> ''alice'' \<in> dom (active_connections
         (registry_after (heartbeat_round racing_env (seconds 61) crowd)))
   \<and> map_of (last_heartbeat lapsed) ''alice'' = Some 0
   \<and> paced [round_at (seconds 45), round_at (seconds 75)]
   \<and> ''alice'' \<in> dom (active_connections (heartbeat_loop [round_at (seconds 45)] lapsed))
   \<and> ''alice'' \<notin> dom (active_connections
         (heartbeat_loop [round_at (seconds 45), round_at (seconds 75)] lapsed))"
proof -
  have t: "seconds 61 - 0 > seconds 60"
    "seconds 75 - seconds 45 \<ge> seconds HEARTBEAT_INTERVAL"
    by (simp_all add: seconds_def HEARTBEAT_INTERVAL_def)
  have a: "''alice'' \<in> dom (active_connections
      (start_heartbeat (seconds 61) ''carol'' (snd (connect 9 ''carol'' ''UTC'' crowd))))"
    by (simp add: start_heartbeat_def connect_def crowd_fields dom_def)
  have b: "''alice'' \<in> dom (active_connections lapsed)"
    "''alice'' \<notin> dom (active_connections (disconnect ''alice'' lapsed))"
    by (simp_all add: lapsed_fields disconnect_def dom_def)
  show ?thesis
    using t a b
    by (simp add: racing_round round_45 round_75 round_at_def crowd_fields lapsed_fields)
qed

lemma scan_collects:
  assumes keys: "\<forall>k m'. map fst (last_heartbeat (during_ping env k m')) = map fst (last_heartbeat m')"
    and own: "\<forall>k m'. map_of (last_heartbeat (during_ping env k m')) c = map_of (last_heartbeat m') c"
    and old: "now - t > seconds 60"
  shows "map_of (last_heartbeat m) c = Some t \<Longrightarrow> c \<in> set ks \<or> c \<in> set stale \<Longrightarrow>
     length ks \<le> left \<Longrightarrow>
     \<exists>stale' m'. scan env now left ks m stale = Collected stale' m' \<and> c \<in> set stale'"
proof (induction ks arbitrary: left m stale)
  case Nil
  then show ?case by simp
next
  case (Cons k ks)
  then obtain l where l: "left = Suc l" and len: "length ks \<le> l"
    by (cases left) auto
  have len_eq: "length (last_heartbeat (during_ping env k m)) = length (last_heartbeat m)"
    using keys by (metis length_map)
  have step: "\<exists>stale' m'. scan env now l ks m1 stale1 = Collected stale' m' \<and> c \<in> set stale'"
    if "map_of (last_heartbeat m1) c = Some t" and "c \<in> set ks \<or> c \<in> set stale1"
    for m1 stale1
    using Cons.IH [OF that len] .
  show ?case
  proof (cases "k = c")
    case True
    have "scan env now left (k # ks) m stale = scan env now l ks m (stale @ [c])"
      using True l Cons.prems(1) old by (simp add: HEARTBEAT_TIMEOUT_def)
    moreover have "\<exists>stale' m'. scan env now l ks m (stale @ [c]) = Collected stale' m' \<and> c \<in> set stale'"
      using step [of m "stale @ [c]"] Cons.prems(1) by simp
    ultimately show ?thesis by simp
  next
    case False
    then have rest: "c \<in> set ks \<or> c \<in> set stale"
      using Cons.prems(2) by auto
    have a: "\<exists>stale' m'. scan env now l ks m stale = Collected stale' m' \<and> c \<in> set stale'"
      using step [of m stale] Cons.prems(1) rest by simp
    have b: "\<exists>stale' m'. scan env now l ks m (stale @ [k]) = Collected stale' m' \<and> c \<in> set stale'"
      using step [of m "stale @ [k]"] Cons.prems(1) rest by auto
    have own1: "map_of (last_heartbeat (during_ping env k m)) c = Some t"
      using own Cons.prems(1) by simp
    have d: "\<exists>stale' m'. scan env now l ks (during_ping env k m) stale = Collected stale' m' \<and> c \<in> set stale'"
      using step [of "during_ping env k m" stale] own1 rest by simp
    have e: "\<exists>stale' m'. scan env now l ks (during_ping env k m) (stale @ [k]) = Collected stale' m' \<and> c \<in> set stale'"
      using step [of "during_ping env k m" "stale @ [k]"] own1 rest by auto
    show ?thesis
      using a b d e l len_eq keys
      by (simp add: Let_def split: option.splits)
  qed
qed

lemma evict_removes:
  assumes stay: "\<forall>k m'. active_connections m' c = None \<longrightarrow>
      active_connections (during_close env k m') c = None"
  shows "c \<in> set cs \<or> active_connections m c = None \<Longrightarrow>
     active_connections (evict env cs m) c = None"
proof (induction cs arbitrary: m)
  case Nil
  then show ?case by simp
next
  case (Cons a cs)
  let ?m = "if a \<in> dom (active_connections m) then during_close env a (disconnect a m)
            else disconnect a m"
  have "c \<in> set cs \<or> active_connections ?m c = None"
  proof (cases "a = c")
    case True
    have "active_connections (disconnect c m) c = None" by (simp add: disconnect_def)
    then show ?thesis using True stay by simp
  next
    case False
    show ?thesis
    proof (cases "c \<in> set cs")
      case True
      then show ?thesis by simp
    next
      case no: False
      then have "active_connections m c = None" using Cons.prems False by simp
      then have "active_connections (disconnect a m) c = None" by (simp add: disconnect_def)
      then show ?thesis using stay by simp
    qed
  qed
  then have "active_connections (evict env cs ?m) c = None" by (rule Cons.IH)
  then show ?case by simp
qed

text \<open>
  C8, amended. Take a pass of the heartbeat scanner during which the other tasks, while
  a ping is awaited, add and remove no heartbeat entry and leave the entry of session
  \<open>c\<close> as it is, and, while a close is awaited, do not connect \<open>c\<close>. If the last
  heartbeat of \<open>c\<close> is more than 60 seconds before the time of the pass, the pass
  completes, \<open>c\<close> is not in \<open>active_connections\<close> after it, and \<open>c\<close> stays out under
  every later sequence of registry operations that has no connect for it. The eviction
  happens at such a pass, not at the 60 second mark.
\<close>

theorem heartbeat_round_evicts:
  assumes "map_of (last_heartbeat m) c = Some t" and "now - t > seconds 60"
    and "\<forall>k m'. map fst (last_heartbeat (during_ping env k m')) = map fst (last_heartbeat m')"
    and "\<forall>k m'. map_of (last_heartbeat (during_ping env k m')) c = map_of (last_heartbeat m') c"
    and "\<forall>k m'. active_connections m' c = None \<longrightarrow>
           active_connections (during_close env k m') c = None"
  shows "is_Completed (heartbeat_round env now m)
     \<and> c \<notin> dom (active_connections (registry_after (heartbeat_round env now m)))
     \<and> (\<forall>ops. (\<forall>ws tz. Connect ws c tz \<notin> set ops) \<longrightarrow>
           c \<notin> dom (active_connections
                 (run_ops ops (registry_after (heartbeat_round env now m)))))"
proof -
  have "c \<in> set (map fst (last_heartbeat m))"
    using assms(1) by (metis map_of_SomeD fst_conv image_eqI set_map)
  then obtain stale m' where s: "scan env now (length (last_heartbeat m)) (map fst (last_heartbeat m)) m []
      = Collected stale m'" and c: "c \<in> set stale"
    using scan_collects [OF assms(3) assms(4) assms(2) assms(1), of "map fst (last_heartbeat m)" "[]"
        "length (last_heartbeat m)"]
    by auto
  have r: "heartbeat_round env now m = Completed (evict env stale m')"
    by (simp add: heartbeat_round_def s)
  have gone: "active_connections (evict env stale m') c = None"
    using evict_removes [OF assms(5)] c by simp
  show ?thesis
    using gone by (auto simp: r run_ops_keeps_absent)
qed

theorem heartbeat_round_evicts_witness:
  "map_of (last_heartbeat crowd) ''alice'' = Some 0
   \<and> seconds 61 - 0 > seconds 60
   \<and> ''alice'' \<in> dom (active_connections crowd)
   \<and> is_Completed (heartbeat_round busy_env (seconds 61) crowd)
   \<and> ''alice'' \<notin> dom (active_connections
         (registry_after (heartbeat_round busy_env (seconds 61) crowd)))
   \<and> ''alice'' \<notin> dom (active_connections
         (run_ops [Heartbeat (seconds 62) ''alice'', StartSending ''alice'']
            (registry_after (heartbeat_round busy_env (seconds 61) crowd))))"
proof -
  have h1: "map_of (last_heartbeat crowd) ''alice'' = Some 0"
    by (simp add: crowd_fields)
  have h2: "seconds 61 - 0 > seconds 60"
    by (simp add: seconds_def)
  have h3: "\<forall>k m'. map fst (last_heartbeat (during_ping busy_env k m')) = map fst (last_heartbeat m')"
    by (simp add: busy_env_def start_sending_def)
  have h4: "\<forall>k m'. map_of (last_heartbeat (during_ping busy_env k m')) ''alice''
      = map_of (last_heartbeat m') ''alice''"
    by (simp add: busy_env_def start_sending_def)
  have h5: "\<forall>k m'. active_connections m' ''alice'' = None \<longrightarrow>
      active_connections (during_close busy_env k m') ''alice'' = None"
    by (simp add: busy_env_def decrement_processing_def)
  have h6: "''alice'' \<in> dom (active_connections crowd)"
    by (simp add: crowd_fields dom_def)
  have h7: "\<forall>ws tz. Connect ws ''alice'' tz \<notin>
      set [Heartbeat (seconds 62) ''alice'', StartSending ''alice'' :: nat registry_op]"
    by simp
  show ?thesis
    using h1 h2 h6 h7 heartbeat_round_evicts [OF h1 h2 h3 h4 h5]
    by blast
qed

section \<open>The validator\<close>

lemma MessageType_of_text: "MessageType_of ''text'' = Some TEXT"
  by (simp add: MessageType_of_def all_types_def)

lemmas validate_simps = validate_message_def content_frame_def message_type_str_def clock_at_def
      MessageType_of_def is_media_def parse_timestamp_def is_time_allowed_def current_hour_def
      all_types_def

text \<open>
  C5, as stated, fails: a text frame with empty content and a file name passes
  validation, as a text message with empty content.
\<close>

theorem empty_text_with_filename_counterexample:
  "message_type_key (content_frame (Some ''text'') [] (Some ''a.txt'')) = Some ''text''
   \<and> content_key (content_frame (Some ''text'') [] (Some ''a.txt'')) = Some []
   \<and> validate_message (clock_at 12) (content_frame (Some ''text'') [] (Some ''a.txt'')) ''c1'' ''UTC''
       = Inr \<lparr> client_id = ''c1'', content = [], message_type = TEXT, client_timestamp = 0,
               timezone = ''UTC'', filename = Some ''a.txt'', binary_content = None,
               is_accepted = True, status_message = None, is_system = False \<rparr>"
  by (simp add: validate_message_def content_frame_def message_type_str_def clock_at_def
      MessageType_of_text is_media_def parse_timestamp_def is_time_allowed_def current_hour_def
      all_types_def)

text \<open>
  C5, amended. A frame that the validator reads as a text message, with empty or absent
  content and no file name, fails validation with the error whose text is
  "Message content cannot be empty".
\<close>

theorem empty_text_rejected:
  assumes "message_type_str md = ''text''"
    and "\<not> truthy_bool (is_system_key md)"
    and "content_key md = None \<or> content_key md = Some []"
    and "\<not> truthy (filename_key md)"
  shows "validate_message ck md cid tz = Inl EmptyContent
     \<and> str_validation_error fmt EmptyContent = ''Message content cannot be empty''"
  using assms
  by (auto simp: validate_message_def MessageType_of_text is_media_def all_types_def)

theorem empty_text_rejected_witness:
  "message_type_str (content_frame (Some ''text'') [] None) = ''text''
   \<and> validate_message (clock_at 12) (content_frame (Some ''text'') [] None) ''c1'' ''UTC''
        = Inl EmptyContent"
proof -
  have a: "message_type_str (content_frame (Some ''text'') [] None) = ''text''"
    by (simp add: message_type_str_def content_frame_def)
  have b: "\<not> truthy_bool (is_system_key (content_frame (Some ''text'') [] None))"
    by (simp add: content_frame_def)
  have c: "content_key (content_frame (Some ''text'') [] None) = None
      \<or> content_key (content_frame (Some ''text'') [] None) = Some []"
    by (simp add: content_frame_def)
  have d: "\<not> truthy (filename_key (content_frame (Some ''text'') [] None))"
    by (simp add: content_frame_def)
  show ?thesis
    using a empty_text_rejected [OF a b c d, of "clock_at 12" "''c1''" "''UTC''"] by simp
qed

lemma validate_message_Inr:
  assumes "validate_message ck md cid tz = Inr msg" and "message_type msg \<noteq> SYSTEM"
  shows "is_accepted msg = fst (hour_allowed (current_hour ck (client_timestamp msg) tz) (message_type msg))
     \<and> status_message msg =
         (if is_accepted msg then None
          else Some (snd (hour_allowed (current_hour ck (client_timestamp msg) tz) (message_type msg))))"
  using assms
  by (auto simp: validate_message_def Let_def is_time_allowed_def
      split: if_splits option.splits prod.splits)

text \<open>
  C6. For a record the validator builds, with \<open>h\<close> the hour of its \<open>client_timestamp\<close> in
  the client's declared time zone: a text message is accepted iff \<open>5 \<le> h < 24\<close>, a voice
  message iff \<open>8 \<le> h < 12\<close>, a video message iff \<open>20 \<le> h < 24\<close>, and a rejected record
  carries the rejection string of its type as \<open>status_message\<close>.
\<close>

theorem time_of_day_policy:
  assumes "validate_message ck md cid tz = Inr msg"
    and "zone_hour ck (client_timestamp msg) tz = Some h"
  shows "(message_type msg = TEXT \<longrightarrow>
            (is_accepted msg \<longleftrightarrow> 5 \<le> h \<and> h < 24) \<and>
            (\<not> is_accepted msg \<longrightarrow> status_message msg =
               Some ''Text messages are only accepted between 5 AM and midnight''))
       \<and> (message_type msg = VOICE \<longrightarrow>
            (is_accepted msg \<longleftrightarrow> 8 \<le> h \<and> h < 12) \<and>
            (\<not> is_accepted msg \<longrightarrow> status_message msg =
               Some ''Voice messages are only accepted between 8 AM and 12 PM''))
       \<and> (message_type msg = VIDEO \<longrightarrow>
            (is_accepted msg \<longleftrightarrow> 20 \<le> h \<and> h < 24) \<and>
            (\<not> is_accepted msg \<longrightarrow> status_message msg =
               Some ''Video messages are only accepted between 8 PM and midnight''))"
proof -
  have h: "current_hour ck (client_timestamp msg) tz = h"
    using assms(2) by (simp add: current_hour_def)
  show ?thesis
  proof (cases "message_type msg = SYSTEM")
    case True
    then show ?thesis by simp
  next
    case False
    from validate_message_Inr [OF assms(1) False] h
    show ?thesis by (auto split: if_splits)
  qed
qed

theorem time_of_day_policy_witness:
  "validate_message (clock_at 3) (content_frame (Some ''text'') ''hi'' None) ''c1'' ''UTC''
     = Inr rejected_text
   \<and> zone_hour (clock_at 3) (client_timestamp rejected_text) ''UTC'' = Some 3
   \<and> message_type rejected_text = TEXT
   \<and> (is_accepted rejected_text \<longleftrightarrow> 5 \<le> (3::nat) \<and> (3::nat) < 24)
   \<and> validate_message (clock_at 10) (content_frame (Some ''voice'') ''aGk='' (Some ''a.mp3'')) ''c1'' ''UTC''
     = Inr accepted_voice
   \<and> zone_hour (clock_at 10) (client_timestamp accepted_voice) ''UTC'' = Some 10
   \<and> message_type accepted_voice = VOICE
   \<and> (is_accepted accepted_voice \<longleftrightarrow> 8 \<le> (10::nat) \<and> (10::nat) < 12)
   \<and> validate_message (clock_at 19) (content_frame (Some ''video'') ''aGk='' (Some ''a.mp4'')) ''c1'' ''UTC''
     = Inr rejected_video
   \<and> zone_hour (clock_at 19) (client_timestamp rejected_video) ''UTC'' = Some 19
   \<and> message_type rejected_video = VIDEO
   \<and> (is_accepted rejected_video \<longleftrightarrow> 20 \<le> (19::nat) \<and> (19::nat) < 24)"
proof -
  have a: "validate_message (clock_at 3) (content_frame (Some ''text'') ''hi'' None) ''c1'' ''UTC''
     = Inr rejected_text"
    by (simp add: validate_simps rejected_text_def)
  have az: "zone_hour (clock_at 3) (client_timestamp rejected_text) ''UTC'' = Some 3"
    by (simp add: clock_at_def)
  have b: "validate_message (clock_at 10) (content_frame (Some ''voice'') ''aGk='' (Some ''a.mp3'')) ''c1'' ''UTC''
     = Inr accepted_voice"
    by (simp add: validate_simps accepted_voice_def)
  have bz: "zone_hour (clock_at 10) (client_timestamp accepted_voice) ''UTC'' = Some 10"
    by (simp add: clock_at_def)
  have c: "validate_message (clock_at 19) (content_frame (Some ''video'') ''aGk='' (Some ''a.mp4'')) ''c1'' ''UTC''
     = Inr rejected_video"
    by (simp add: validate_simps rejected_video_def)
  have cz: "zone_hour (clock_at 19) (client_timestamp rejected_video) ''UTC'' = Some 19"
    by (simp add: clock_at_def)
  have t: "message_type rejected_text = TEXT" "message_type accepted_voice = VOICE"
    "message_type rejected_video = VIDEO"
    by (simp_all add: rejected_text_def accepted_voice_def rejected_video_def)
  show ?thesis
    using a az b bz c cz t time_of_day_policy [OF a az] time_of_day_policy [OF b bz]
      time_of_day_policy [OF c cz]
    by simp
qed

lemma default_validate:
  assumes "type_key md = None" and "message_type_key md = None"
    and "\<not> truthy_bool (is_system_key md)"
  shows "validate_message ck (default_message_type md) cid tz =
     (let c = (case content_key md of Some c \<Rightarrow> c | None \<Rightarrow> []);
          ts = parse_timestamp ck (timestamp_key md);
          ok = fst (hour_allowed (current_hour ck ts tz) TEXT) in
      if c = [] \<and> \<not> truthy (filename_key md) then Inl EmptyContent
      else Inr \<lparr> client_id = cid, content = c, message_type = TEXT, client_timestamp = ts,
                 timezone = tz, filename = filename_key md, binary_content = None,
                 is_accepted = ok,
                 status_message = (if \<not> ok then
                    Some (snd (hour_allowed (current_hour ck ts tz) TEXT)) else None),
                 is_system = False \<rparr>)"
  using assms
  by (simp add: validate_message_def default_message_type_def message_type_str_def
      MessageType_of_def all_types_def is_media_def is_time_allowed_def Let_def
      split: prod.splits)

lemma raw_validate:
  assumes "type_key md = None" and "message_type_key md = None"
  shows "validate_message ck md cid tz = validate_message ck (default_message_type md) cid tz"
  using assms
  by (simp add: validate_message_def default_message_type_def message_type_str_def
      Let_def all_types_def MessageType_of_def)

text \<open>
  C10. A content frame with neither a \<^verbatim>\<open>type\<close> nor a \<^verbatim>\<open>message_type\<close> key: the session
  handler sets its \<^verbatim>\<open>message_type\<close> to \<^verbatim>\<open>text\<close>; the validator does not raise the
  missing-type error, with or without that default, and every record it builds is a text
  message; and with content present and both gates open the handler's replies are those
  of the processor for that text message.
\<close>

theorem missing_type_defaults_to_text:
  assumes "type_key md = None" and "message_type_key md = None"
    and "\<not> truthy_bool (is_system_key md)"
  shows "message_type_key (default_message_type md) = Some ''text''
     \<and> validate_message ck md cid tz \<noteq> Inl MessageTypeRequired
     \<and> validate_message ck (default_message_type md) cid tz \<noteq> Inl MessageTypeRequired
     \<and> (\<forall>msg. validate_message ck md cid tz = Inr msg \<longrightarrow> message_type msg = TEXT)
     \<and> (truthy (content_key md) \<and> card (sending_clients (manager sv)) < 50
          \<and> messages_processing (manager sv) < 500 \<longrightarrow>
         (\<exists>msg. validate_message ck (default_message_type md) cid tz = Inr msg
            \<and> message_type msg = TEXT \<and> content msg = the (content_key md)
            \<and> fst (handle_frame ck env hb_now fmt cid tz md sv)
                 = fst (process_message env msg (processor sv))))"
proof -
  note dv = default_validate [OF assms, of ck cid tz]
  have 1: "message_type_key (default_message_type md) = Some ''text''"
    using assms by (simp add: default_message_type_def)
  have 2: "validate_message ck (default_message_type md) cid tz \<noteq> Inl MessageTypeRequired"
    unfolding dv by (simp add: Let_def)
  have 3: "\<forall>msg. validate_message ck (default_message_type md) cid tz = Inr msg \<longrightarrow> message_type msg = TEXT"
    unfolding dv by (auto simp: Let_def split: if_splits)
  have 4: "\<exists>msg. validate_message ck (default_message_type md) cid tz = Inr msg
            \<and> message_type msg = TEXT \<and> content msg = the (content_key md)
            \<and> fst (handle_frame ck env hb_now fmt cid tz md sv)
                 = fst (process_message env msg (processor sv))"
    if t: "truthy (content_key md)" and s: "card (sending_clients (manager sv)) < 50"
      and p: "messages_processing (manager sv) < 500"
  proof -
    obtain c where c: "content_key md = Some c" "c \<noteq> []"
      using t by (cases "content_key md") auto
    obtain msg where msg: "validate_message ck (default_message_type md) cid tz = Inr msg"
      and mt: "message_type msg = TEXT" and ct: "content msg = c"
      unfolding dv using c by (simp add: Let_def)
    have sys: "\<not> truthy_bool (is_system_key (default_message_type md))"
      using assms by (simp add: default_message_type_def)
    have "fst (handle_frame ck env hb_now fmt cid tz md sv) = fst (process_message env msg (processor sv))"
      using assms(1) sys msg s p
      by (simp add: handle_frame_def Let_def start_sending_def increment_processing_def
          MAX_SENDING_def MAX_PROCESSING_def split: prod.splits)
    then show ?thesis using msg mt ct c by auto
  qed
  show ?thesis
    using 1 2 3 4 raw_validate [OF assms(1,2), of ck cid tz] by simp
qed

theorem missing_type_defaults_to_text_witness:
  "type_key (content_frame None ''hi'' None) = None
   \<and> message_type_key (content_frame None ''hi'' None) = None
   \<and> \<not> truthy_bool (is_system_key (content_frame None ''hi'' None))
   \<and> message_type_key (default_message_type (content_frame None ''hi'' None)) = Some ''text''
   \<and> validate_message (clock_at 12) (content_frame None ''hi'' None) ''c1'' ''UTC''
        = Inr accepted_text
   \<and> message_type accepted_text = TEXT"
proof -
  have a: "type_key (content_frame None ''hi'' None) = None"
    and b: "message_type_key (content_frame None ''hi'' None) = None"
    and c: "\<not> truthy_bool (is_system_key (content_frame None ''hi'' None))"
    by (simp_all add: content_frame_def)
  have v: "validate_message (clock_at 12) (content_frame None ''hi'' None) ''c1'' ''UTC''
        = Inr accepted_text"
    by (simp add: validate_simps accepted_text_def)
  show ?thesis
    using a b c v
      missing_type_defaults_to_text [OF a b c, of "clock_at 12" "''c1''" "''UTC''" idle_server]
    by simp
qed

section \<open>The rate-limit latch\<close>

lemma expired_status:
  "get_rate_limit_status (minutes 31) latched =
     Inr \<lparr> rate_limited = True, time_remaining = Some (- 60) \<rparr>"
  by (simp add: get_rate_limit_status_def latched_def rate_limit_duration_def minutes_def
      seconds_def total_seconds_def)

lemma expired_latch_reply:
  "process_message (env_at (minutes 31)) accepted_text busy_processor =
       ([text_reply 1 ''System is currently busy. Please try again in 0 minutes. (Original message: hi...)''],
        busy_processor\<lparr> db := \<lparr> messages = [\<lparr> row_id = 1, row_client_id = ''c1'',
               row_message_type = ''text'', row_content = ''hi'', row_client_timestamp = 0,
               row_timezone = ''UTC'', row_is_accepted = True,
               row_status_message = Some ''Message accepted'' \<rparr>],
             replies = [\<lparr> reply_id = 1, reply_message_id = 1,
               reply_content = ''System is currently busy. Please try again in 0 minutes. (Original message: hi...)'',
               reply_type = ''text'', is_delivered = True \<rparr>], attempts = [] \<rparr>,
           processing_count := 1 \<rparr>)"
  by (simp add: process_message_def process_message_body_def env_at_def content_to_save_def
      is_media_def busy_processor_def init_processor_def init_db_def expired_status
      save_message_def save_reply_def Let_def py_int_def str_int_def digits.simps
      accepted_text_def ceiling_minus)

text \<open>
  C2. The status read does not clear the latch. A 429 at time 0 latches the client; the
  status read 31 minutes later still reports \<open>rate_limited = True\<close>, with a negative
  time remaining, whereas \<^verbatim>\<open>is_rate_limited\<close> at the same instant clears the latch. A text
  message processed at that time gets the busy reply, and the client stays latched.
\<close>

theorem latch_survives_status_read:
  "get_chat_response 0 0 always_429 ''hi'' init_client =
     Inr (''Sorry, I'm receiving too many requests right now. Please try again in 30 minutes.'', latched)
   \<and> get_rate_limit_status (minutes 31) latched =
        Inr \<lparr> rate_limited = True, time_remaining = Some (- 60) \<rparr>
   \<and> is_rate_limited (minutes 31) latched = Inr (False, init_client)
   \<and> fst (process_message (env_at (minutes 31)) accepted_text busy_processor) =
        [text_reply 1 ''System is currently busy. Please try again in 0 minutes. (Original message: hi...)'']
   \<and> openai_client (snd (process_message (env_at (minutes 31)) accepted_text busy_processor))
        = latched"
proof -
  have "get_chat_response 0 0 always_429 ''hi'' init_client =
     Inr (''Sorry, I'm receiving too many requests right now. Please try again in 30 minutes.'', latched)"
    by (simp add: get_chat_response_def is_rate_limited_def init_client_def always_429_def
        latched_def)
  moreover have "is_rate_limited (minutes 31) latched = Inr (False, init_client)"
    by (simp add: is_rate_limited_def init_client_def latched_def rate_limit_duration_def
        minutes_def seconds_def)
  moreover have "openai_client busy_processor = latched"
    by (simp add: busy_processor_def)
  ultimately show ?thesis
    by (simp add: expired_status expired_latch_reply)
qed

text \<open>
  No status read clears a latched client, whatever the clock says.
\<close>

lemma status_read_never_clears:
  "rate_limit_hit c \<Longrightarrow> rate_limit_time c = Some t \<Longrightarrow>
     \<exists>r. get_rate_limit_status now c = Inr \<lparr> rate_limited = True, time_remaining = Some r \<rparr>"
  by (simp add: get_rate_limit_status_def Let_def)

section \<open>Persistence\<close>

lemma writes_ok_retry:
  "writes_ok (Suc n) as \<Longrightarrow> retry 0 as = (Inr (), snd (retry 0 as))"
  by (auto split: prod.splits sum.splits)

lemma writes_ok_rest:
  "writes_ok (Suc n) as \<Longrightarrow> writes_ok n (snd (retry 0 as))"
  by (auto split: prod.splits sum.splits)

declare writes_ok.simps [simp del]

lemma writes_ok_nil: "writes_ok n []"
  by (induction n) (simp_all add: writes_ok.simps)

lemma save_message_ok:
  assumes "writes_ok (Suc n) (attempts d)"
  shows "save_message c mt cid ts tz a st d =
     (Inr (int (length (messages d)) + 1),
      d\<lparr> messages := messages d @
            [\<lparr> row_id = int (length (messages d)) + 1, row_client_id = cid,
               row_message_type = mt, row_content = c, row_client_timestamp = ts,
               row_timezone = tz, row_is_accepted = a, row_status_message = st \<rparr>],
         attempts := snd (retry 0 (attempts d)) \<rparr>)"
  unfolding save_message_def
  by (subst writes_ok_retry [OF assms]) (simp add: Let_def)

lemma save_reply_ok:
  assumes "writes_ok (Suc n) (attempts d)"
  shows "save_reply mid c rt d =
     (Inr (int (length (replies d)) + 1),
      d\<lparr> replies := replies d @
            [\<lparr> reply_id = int (length (replies d)) + 1, reply_message_id = mid,
               reply_content = c, reply_type = rt, is_delivered = True \<rparr>],
         attempts := snd (retry 0 (attempts d)) \<rparr>)"
  unfolding save_reply_def
  by (subst writes_ok_retry [OF assms]) (simp add: Let_def)

section \<open>The processor\<close>

lemma accepted_text_fields:
  "is_accepted accepted_text" "message_type accepted_text = TEXT"
  "content accepted_text = ''hi''" "status_message accepted_text = None"
  by (simp_all add: accepted_text_def)

lemma accepted_voice_fields:
  "is_accepted accepted_voice" "message_type accepted_voice = VOICE"
  "content accepted_voice = []" "filename accepted_voice = Some ''a.mp3''"
  "binary_content accepted_voice = Some ''aGk=''" "status_message accepted_voice = None"
  by (simp_all add: accepted_voice_def)

lemma accepted_video_fields:
  "is_accepted accepted_video" "message_type accepted_video = VIDEO"
  "content accepted_video = []" "filename accepted_video = Some ''a.mp4''"
  "binary_content accepted_video = Some ''aGk=''" "status_message accepted_video = None"
  by (simp_all add: accepted_video_def)

lemma busy_status:
  "get_rate_limit_status (seconds 300) latched =
     Inr \<lparr> rate_limited = True, time_remaining = Some 1500 \<rparr>"
  by (simp add: get_rate_limit_status_def latched_def rate_limit_duration_def minutes_def
      seconds_def total_seconds_def)

lemma rejected_reply:
  "\<not> is_accepted msg \<Longrightarrow>
     process_message env msg p =
       ([notice (case status_message msg of Some s \<Rightarrow> JStr s | None \<Rightarrow> JNull)], p)"
  by (simp add: process_message_def process_message_body_def)

text \<open>
  C1. The processor does not persist a rejected record: for the text message rejected
  at 3 AM it returns the single text reply that carries the rejection reason, and leaves
  the processor, and with it the messages table, as it was.
\<close>

theorem rejected_message_not_persisted:
  "\<not> is_accepted rejected_text
   \<and> process_message (env_at 0) rejected_text init_processor =
       ([notice (JStr ''Text messages are only accepted between 5 AM and midnight'')],
        init_processor)
   \<and> messages (db init_processor) = []"
  by (simp add: process_message_def process_message_body_def rejected_text_def
      init_processor_def init_db_def)

text \<open>
  C3, as stated, fails: with 1500 seconds remaining the reply says 26 minutes, and
  \<open>\<lceil>1500 / 60\<rceil> = 25\<close>.
\<close>

theorem busy_minutes_counterexample:
  "get_rate_limit_status (now_status (env_at (seconds 300))) (openai_client busy_processor)
     = Inr \<lparr> rate_limited = True, time_remaining = Some 1500 \<rparr>
   \<and> fst (process_message (env_at (seconds 300)) accepted_text busy_processor) =
       [text_reply 1 ''System is currently busy. Please try again in 26 minutes. (Original message: hi...)'']
   \<and> \<lceil>(1500 :: rat) / 60\<rceil> = 25"
  by (simp add: process_message_def process_message_body_def env_at_def content_to_save_def
      is_media_def
      busy_processor_def init_processor_def init_db_def busy_status save_message_def
      save_reply_def Let_def py_int_def str_int_def digits.simps accepted_text_def)

text \<open>
  C3, amended. When the status read reports \<open>rate_limited = True\<close> with \<open>S\<close> seconds
  remaining, for an accepted message whose content is stored and whose two writes go
  through, the processor returns exactly one text reply, "System is currently busy.
  Please try again in N minutes. (Original message: ...)" with \<open>N = int(S / 60) + 1\<close>,
  which is \<open>\<lfloor>S / 60\<rfloor> + 1\<close> for \<open>S \<ge> 0\<close>; for \<open>S = 1500\<close> it says 26 minutes.
\<close>

theorem busy_reply:
  assumes acc: "is_accepted msg"
    and sav: "content_to_save (media env) msg = Inr stored"
    and wr: "writes_ok 2 (attempts (db p))"
    and st: "get_rate_limit_status (now_status env) (openai_client p) =
               Inr \<lparr> rate_limited = True, time_remaining = Some S \<rparr>"
  shows "fst (process_message env msg p) =
           [text_reply (int (length (replies (db p))) + 1)
              (''System is currently busy. Please try again in '' @
               str_int (py_int (S / 60) + 1) @
               '' minutes. (Original message: '' @ take 30 (content msg) @ ''...)'')]
         \<and> (0 \<le> S \<longrightarrow> py_int (S / 60) + 1 = \<lfloor>S / 60\<rfloor> + 1)"
proof -
  have w2: "writes_ok (Suc (Suc 0)) (attempts (db p))"
    using wr by (simp add: numeral_2_eq_2)
  note w1 = writes_ok_rest [OF w2]
  have "fst (process_message env msg p) =
           [text_reply (int (length (replies (db p))) + 1)
              (''System is currently busy. Please try again in '' @
               str_int (py_int (S / 60) + 1) @
               '' minutes. (Original message: '' @ take 30 (content msg) @ ''...)'')]"
    using acc sav st
    by (simp add: process_message_def process_message_body_def Let_def
        save_message_ok [OF w2] save_reply_ok [where n = 0] w1)
  moreover have "0 \<le> S \<longrightarrow> py_int (S / 60) + 1 = \<lfloor>S / 60\<rfloor> + 1"
    by (simp add: py_int_def)
  ultimately show ?thesis by simp
qed

theorem busy_reply_witness:
  "is_accepted accepted_text
   \<and> content_to_save (media (env_at (seconds 300))) accepted_text = Inr ''hi''
   \<and> writes_ok 2 (attempts (db busy_processor))
   \<and> get_rate_limit_status (now_status (env_at (seconds 300))) (openai_client busy_processor)
       = Inr \<lparr> rate_limited = True, time_remaining = Some 1500 \<rparr>
   \<and> fst (process_message (env_at (seconds 300)) accepted_text busy_processor) =
       [text_reply 1 ''System is currently busy. Please try again in 26 minutes. (Original message: hi...)'']"
proof -
  have a: "is_accepted accepted_text" by (simp add: accepted_text_fields)
  have b: "content_to_save (media (env_at (seconds 300))) accepted_text = Inr ''hi''"
    by (simp add: content_to_save_def is_media_def accepted_text_fields)
  have c: "writes_ok 2 (attempts (db busy_processor))"
    by (simp add: busy_processor_def init_processor_def init_db_def writes_ok_nil)
  have d: "get_rate_limit_status (now_status (env_at (seconds 300))) (openai_client busy_processor)
       = Inr \<lparr> rate_limited = True, time_remaining = Some 1500 \<rparr>"
    by (simp add: env_at_def busy_processor_def busy_status)
  have e: "str_int (py_int (1500 / 60) + 1) = ''26''"
    by (simp add: py_int_def str_int_def digits.simps)
  have f: "replies (db busy_processor) = []"
    by (simp add: busy_processor_def init_processor_def init_db_def)
  show ?thesis
    using a b c d busy_reply [OF a b c d, unfolded e f]
    by (simp add: accepted_text_fields)
qed

section \<open>The media handler\<close>

lemmas media_simps = save_media_def save_media_body_def disk_def decode_hi_def media_types_def
      get_media_dir_def media_root_def path_join_def sanitize_filename_def basename_def
      is_valid_extension_def extension_def lower_def lower_char_def splitext_def Let_def

lemma save_voice:
  "save_media disk (StrContent ''aGk='') ''voice'' ''a.mp3''
     = Inr (Some ''media/voices/a_20250101_120000_abc123.mp3'')"
  by (simp add: save_media_def save_media_body_def disk_def decode_hi_def media_types_def
      get_media_dir_def media_root_def path_join_def sanitize_filename_def basename_def
      is_valid_extension_def extension_def lower_def lower_char_def splitext_def Let_def)

lemma save_video:
  "save_media disk (StrContent ''aGk='') ''video'' ''a.mp4''
     = Inr (Some ''media/videos/a_20250101_120000_abc123.mp4'')"
  by (simp add: media_simps)

lemma content_voice:
  "content_to_save disk accepted_voice = Inr ''media/voices/a_20250101_120000_abc123.mp3''"
  by (simp add: content_to_save_def accepted_voice_fields is_media_def save_voice)

lemma content_video:
  "content_to_save disk accepted_video = Inr ''media/videos/a_20250101_120000_abc123.mp4''"
  by (simp add: content_to_save_def accepted_video_fields is_media_def save_video)

section \<open>Static media replies\<close>

text \<open>
  C4, as stated, fails: an accepted voice message that arrives while the client is rate
  limited gets the busy text reply and no voice reply.
\<close>

theorem voice_while_busy_counterexample:
  "is_accepted accepted_voice \<and> message_type accepted_voice = VOICE
   \<and> fst (process_message (env_at (seconds 300)) accepted_voice busy_processor) =
       [text_reply 1 ''System is currently busy. Please try again in 26 minutes. (Original message: ...)'']"
  by (simp add: process_message_def process_message_body_def env_at_def content_voice
      busy_processor_def init_processor_def init_db_def busy_status save_message_def
      save_reply_def Let_def py_int_def str_int_def digits.simps accepted_voice_fields)

lemma reply_text_canned:
  "message_type msg \<noteq> TEXT \<Longrightarrow>
     reply_text env msg c = (''Received your '' @ value_of (message_type msg) @ '' message'', c)"
  by (simp add: reply_text_def)

text \<open>
  C4, amended. For an accepted voice, video or image message whose media is stored and
  whose writes go through, when the status read reports no rate limit, the replies are,
  in this order: the text reply "Received your <type> message", one voice reply with
  content \<^verbatim>\<open>/media/static_replies/reply.mp3\<close>, and for video and image one image
  reply with content \<^verbatim>\<open>/media/static_replies/reply.png\<close>.
\<close>

theorem static_media_replies:
  assumes acc: "is_accepted msg"
    and mt: "message_type msg \<in> {VOICE, VIDEO, IMAGE}"
    and sav: "content_to_save (media env) msg = Inr stored"
    and wr: "writes_ok (if message_type msg = VOICE then 3 else 4) (attempts (db p))"
    and st: "get_rate_limit_status (now_status env) (openai_client p) = Inr status"
    and nl: "\<not> rate_limited status"
  shows "fst (process_message env msg p) =
     text_reply (int (length (replies (db p))) + 1)
       (''Received your '' @ value_of (message_type msg) @ '' message'')
     # media_reply (int (length (replies (db p))) + 2) ''/media/static_replies/reply.mp3''
         ''voice'' ''reply.mp3'' ''audio/mpeg''
     # (if message_type msg \<in> {VIDEO, IMAGE}
        then [media_reply (int (length (replies (db p))) + 3) ''/media/static_replies/reply.png''
                ''image'' ''reply.png'' ''image/png'']
        else [])"
proof (cases "message_type msg = VOICE")
  case True
  have w3: "writes_ok (Suc (Suc (Suc 0))) (attempts (db p))"
    using wr True by (simp add: numeral_3_eq_3)
  note w2 = writes_ok_rest [OF w3]
  note w1 = writes_ok_rest [OF w2]
  show ?thesis
    using acc sav st nl True
    by (simp add: process_message_def process_message_body_def Let_def reply_text_canned
        static_replies_def save_message_ok [OF w3] save_reply_ok [where n = "Suc 0"]
        save_reply_ok [where n = 0] w2 w1 add.commute)
next
  case False
  have w4: "writes_ok (Suc (Suc (Suc (Suc 0)))) (attempts (db p))"
    using wr False by (simp add: eval_nat_numeral)
  note w3 = writes_ok_rest [OF w4]
  note w2 = writes_ok_rest [OF w3]
  note w1 = writes_ok_rest [OF w2]
  have vi: "message_type msg = VIDEO \<or> message_type msg = IMAGE"
    using mt False by auto
  then show ?thesis
  proof
    assume v: "message_type msg = VIDEO"
    show ?thesis
      using acc sav st nl v
      by (simp add: process_message_def process_message_body_def Let_def reply_text_canned
          static_replies_def save_message_ok [OF w4] save_reply_ok [where n = "Suc (Suc 0)"]
          save_reply_ok [where n = "Suc 0"] save_reply_ok [where n = 0] w3 w2 w1 add.commute)
  next
    assume v: "message_type msg = IMAGE"
    show ?thesis
      using acc sav st nl v
      by (simp add: process_message_def process_message_body_def Let_def reply_text_canned
          static_replies_def save_message_ok [OF w4] save_reply_ok [where n = "Suc (Suc 0)"]
          save_reply_ok [where n = "Suc 0"] save_reply_ok [where n = 0] w3 w2 w1 add.commute)
  qed
qed

theorem static_media_replies_witness:
  "is_accepted accepted_voice \<and> message_type accepted_voice \<in> {VOICE, VIDEO, IMAGE}
   \<and> content_to_save (media (env_at 0)) accepted_voice
        = Inr ''media/voices/a_20250101_120000_abc123.mp3''
   \<and> get_rate_limit_status (now_status (env_at 0)) (openai_client init_processor)
        = Inr \<lparr> rate_limited = False, time_remaining = None \<rparr>
   \<and> fst (process_message (env_at 0) accepted_voice init_processor) =
        [text_reply 1 ''Received your voice message'',
         media_reply 2 ''/media/static_replies/reply.mp3'' ''voice'' ''reply.mp3'' ''audio/mpeg'']
   \<and> is_accepted accepted_video \<and> message_type accepted_video \<in> {VOICE, VIDEO, IMAGE}
   \<and> content_to_save (media (env_at 0)) accepted_video
        = Inr ''media/videos/a_20250101_120000_abc123.mp4''
   \<and> fst (process_message (env_at 0) accepted_video init_processor) =
        [text_reply 1 ''Received your video message'',
         media_reply 2 ''/media/static_replies/reply.mp3'' ''voice'' ''reply.mp3'' ''audio/mpeg'',
         media_reply 3 ''/media/static_replies/reply.png'' ''image'' ''reply.png'' ''image/png'']"
proof -
  have a: "is_accepted accepted_voice" and a': "is_accepted accepted_video"
    by (simp_all add: accepted_voice_fields accepted_video_fields)
  have b: "message_type accepted_voice \<in> {VOICE, VIDEO, IMAGE}"
    and b': "message_type accepted_video \<in> {VOICE, VIDEO, IMAGE}"
    by (simp_all add: accepted_voice_fields accepted_video_fields)
  have c: "content_to_save (media (env_at 0)) accepted_voice
        = Inr ''media/voices/a_20250101_120000_abc123.mp3''"
    and c': "content_to_save (media (env_at 0)) accepted_video
        = Inr ''media/videos/a_20250101_120000_abc123.mp4''"
    by (simp_all add: env_at_def content_voice content_video)
  have d: "writes_ok (if message_type accepted_voice = VOICE then 3 else 4)
             (attempts (db init_processor))"
    and d': "writes_ok (if message_type accepted_video = VOICE then 3 else 4)
             (attempts (db init_processor))"
    by (simp_all add: init_processor_def init_db_def writes_ok_nil)
  have e: "get_rate_limit_status (now_status (env_at 0)) (openai_client init_processor)
        = Inr \<lparr> rate_limited = False, time_remaining = None \<rparr>"
    by (simp add: get_rate_limit_status_def init_processor_def init_client_def)
  have f: "\<not> rate_limited \<lparr> rate_limited = False, time_remaining = None \<rparr>"
    by simp
  have g: "replies (db init_processor) = []"
    by (simp add: init_processor_def init_db_def)
  show ?thesis
    using a a' b b' c c' e
      static_media_replies [OF a b c d e f, unfolded g]
      static_media_replies [OF a' b' c' d' e f, unfolded g]
    by (simp add: accepted_voice_fields accepted_video_fields)
qed

section \<open>Saving media\<close>

text \<open>
  C9, as stated, fails: with bytes, media type and extension all valid,
  \<^verbatim>\<open>save_media\<close> still returns \<open>None\<close> when the write fails, and it returns \<open>None\<close>
  for a dictionary without a \<^verbatim>\<open>content\<close> key.
\<close>

theorem save_media_write_failure_counterexample:
  "''hi'' \<noteq> [] \<and> ''image'' \<in> set (map fst media_types)
   \<and> is_valid_extension (sanitize_filename ''a.png'') ''image''
   \<and> save_media full_disk (BytesContent ''hi'') ''image'' ''a.png'' = Inr None
   \<and> save_media disk (DictContent []) ''image'' ''a.png'' = Inr None"
  by (simp add: media_simps full_disk_def)

lemma save_media_returns: "\<exists>r. save_media env cont mt fn = Inr r"
  by (simp add: save_media_def split: sum.splits)

lemma save_media_undecodable:
  "cont = StrContent s \<Longrightarrow> b64decode env s = None \<Longrightarrow> save_media env cont mt fn = Inr None"
  by (simp add: save_media_def save_media_body_def)

lemma save_media_empty:
  "cont = BytesContent [] \<or> (\<exists>s. cont = StrContent s \<and> b64decode env s = Some []) \<Longrightarrow>
     save_media env cont mt fn = Inr None"
  by (auto simp: save_media_def save_media_body_def)

lemma save_media_bad_type:
  "mt \<notin> {''image'', ''video'', ''voice''} \<Longrightarrow> save_media env cont mt fn = Inr None"
  by (auto simp: save_media_def save_media_body_def media_types_def
      split: media_content.splits option.splits sum.splits)

lemma save_media_bad_extension:
  "\<not> is_valid_extension (sanitize_filename fn) mt \<Longrightarrow> save_media env cont mt fn = Inr None"
  by (auto simp: save_media_def save_media_body_def Let_def
      split: media_content.splits option.splits sum.splits)

lemma save_media_no_payload:
  "cont = OtherContent \<or> (\<exists>kv. cont = DictContent kv \<and> map_of kv ''content'' = None) \<Longrightarrow>
     save_media env cont mt fn = Inr None"
  by (auto simp: save_media_def save_media_body_def)

lemma save_media_io_failure:
  "\<not> makedirs_ok env \<or> \<not> write_ok env \<Longrightarrow> save_media env cont mt fn = Inr None"
  by (auto simp: save_media_def save_media_body_def Let_def
      split: media_content.splits option.splits sum.splits prod.splits)

lemma save_media_stored:
  assumes "cont = BytesContent b \<or> (\<exists>s. cont = StrContent s \<and> b64decode env s = Some b)"
    and "b \<noteq> []" and "mt \<in> {''image'', ''video'', ''voice''}"
    and "is_valid_extension (sanitize_filename fn) mt"
    and "makedirs_ok env" and "write_ok env"
  shows "save_media env cont mt fn =
     Inr (Some (path_join (get_media_dir mt)
       (fst (splitext (sanitize_filename fn)) @ ''_'' @ timestamp_str env @ ''_'' @
        random_str env @ snd (splitext (sanitize_filename fn)))))"
  using assms
  by (auto simp: save_media_def save_media_body_def Let_def media_types_def
      split: prod.splits)

text \<open>
  C9, amended. \<^verbatim>\<open>save_media\<close> never raises: it returns for every content, media type
  and file name. It returns \<open>None\<close> when the content is a string that the base64 decoder
  rejects, when the bytes are empty, when the media type is not image, video or voice,
  when the extension of the file's base name is not allowed for the media type, and also
  when the content is a dictionary without a \<^verbatim>\<open>content\<close> key or a value of another
  type, when the media directory cannot be made and when the file cannot be written.
  For non-empty bytes, given directly or decoded from a string, with a valid media type
  and extension and no failure of the file system, it returns the path of the stored
  file, \<^verbatim>\<open>media/<type>s/<base>_<timestamp>_<random><ext>\<close>.
\<close>

theorem save_media_total:
  "(\<exists>r. save_media env cont mt fn = Inr r)
   \<and> (\<forall>s. cont = StrContent s \<and> b64decode env s = None \<longrightarrow>
         save_media env cont mt fn = Inr None)
   \<and> (cont = BytesContent [] \<or> (\<exists>s. cont = StrContent s \<and> b64decode env s = Some []) \<longrightarrow>
         save_media env cont mt fn = Inr None)
   \<and> (mt \<notin> {''image'', ''video'', ''voice''} \<longrightarrow> save_media env cont mt fn = Inr None)
   \<and> (\<not> is_valid_extension (sanitize_filename fn) mt \<longrightarrow>
         save_media env cont mt fn = Inr None)
   \<and> (cont = OtherContent \<or> (\<exists>kv. cont = DictContent kv \<and> map_of kv ''content'' = None) \<longrightarrow>
         save_media env cont mt fn = Inr None)
   \<and> (\<not> makedirs_ok env \<or> \<not> write_ok env \<longrightarrow> save_media env cont mt fn = Inr None)
   \<and> (\<forall>b. (cont = BytesContent b \<or> (\<exists>s. cont = StrContent s \<and> b64decode env s = Some b))
          \<and> b \<noteq> [] \<and> mt \<in> {''image'', ''video'', ''voice''}
          \<and> is_valid_extension (sanitize_filename fn) mt
          \<and> makedirs_ok env \<and> write_ok env \<longrightarrow>
         save_media env cont mt fn =
           Inr (Some (path_join (get_media_dir mt)
             (fst (splitext (sanitize_filename fn)) @ ''_'' @ timestamp_str env @ ''_'' @
              random_str env @ snd (splitext (sanitize_filename fn))))))"
proof -
  have "\<forall>s. cont = StrContent s \<and> b64decode env s = None \<longrightarrow>
         save_media env cont mt fn = Inr None"
    by (simp add: save_media_undecodable)
  moreover have "\<forall>b. (cont = BytesContent b \<or> (\<exists>s. cont = StrContent s \<and> b64decode env s = Some b))
          \<and> b \<noteq> [] \<and> mt \<in> {''image'', ''video'', ''voice''}
          \<and> is_valid_extension (sanitize_filename fn) mt
          \<and> makedirs_ok env \<and> write_ok env \<longrightarrow>
         save_media env cont mt fn =
           Inr (Some (path_join (get_media_dir mt)
             (fst (splitext (sanitize_filename fn)) @ ''_'' @ timestamp_str env @ ''_'' @
              random_str env @ snd (splitext (sanitize_filename fn)))))"
    using save_media_stored [of cont _ env mt fn] by blast
  ultimately show ?thesis
    using save_media_returns [of env cont mt fn] save_media_empty [of cont env mt fn]
      save_media_bad_type [of mt env cont fn] save_media_bad_extension [of fn mt env cont]
      save_media_no_payload [of cont env mt fn] save_media_io_failure [of env cont mt fn]
    by blast
qed

theorem save_media_total_witness:
  "b64decode disk ''aGk='' = Some ''hi'' \<and> ''hi'' \<noteq> []
   \<and> ''voice'' \<in> {''image'', ''video'', ''voice''}
   \<and> is_valid_extension (sanitize_filename ''a.mp3'') ''voice''
   \<and> makedirs_ok disk \<and> write_ok disk
   \<and> save_media disk (StrContent ''aGk='') ''voice'' ''a.mp3''
        = Inr (Some ''media/voices/a_20250101_120000_abc123.mp3'')
   \<and> b64decode strict_disk ''abc'' = None
   \<and> save_media strict_disk (StrContent ''abc'') ''voice'' ''a.mp3'' = Inr None
   \<and> ''file'' \<notin> {''image'', ''video'', ''voice''}
   \<and> save_media disk (BytesContent ''hi'') ''file'' ''a.mp3'' = Inr None
   \<and> \<not> is_valid_extension (sanitize_filename ''a.exe'') ''voice''
   \<and> save_media disk (BytesContent ''hi'') ''voice'' ''a.exe'' = Inr None
   \<and> save_media disk (BytesContent []) ''voice'' ''a.mp3'' = Inr None
   \<and> \<not> write_ok full_disk
   \<and> save_media full_disk (BytesContent ''hi'') ''voice'' ''a.mp3'' = Inr None"
proof -
  have a: "b64decode disk ''aGk='' = Some ''hi''" "makedirs_ok disk" "write_ok disk"
    "b64decode strict_disk ''abc'' = None" "\<not> write_ok full_disk"
    by (simp_all add: disk_def decode_hi_def strict_disk_def decode_none_def full_disk_def)
  have b: "is_valid_extension (sanitize_filename ''a.mp3'') ''voice''"
    "\<not> is_valid_extension (sanitize_filename ''a.exe'') ''voice''"
    by (simp_all add: media_simps)
  have c: "path_join (get_media_dir ''voice'')
             (fst (splitext (sanitize_filename ''a.mp3'')) @ ''_'' @ timestamp_str disk @ ''_'' @
              random_str disk @ snd (splitext (sanitize_filename ''a.mp3'')))
           = ''media/voices/a_20250101_120000_abc123.mp3''"
    by (simp add: media_simps)
  show ?thesis
    using a b
      save_media_total [of disk "StrContent ''aGk=''" "''voice''" "''a.mp3''", unfolded c]
      save_media_total [of strict_disk "StrContent ''abc''" "''voice''" "''a.mp3''"]
      save_media_total [of disk "BytesContent ''hi''" "''file''" "''a.mp3''"]
      save_media_total [of disk "BytesContent ''hi''" "''voice''" "''a.exe''"]
      save_media_total [of disk "BytesContent []" "''voice''" "''a.mp3''"]
      save_media_total [of full_disk "BytesContent ''hi''" "''voice''" "''a.mp3''"]
    by simp
qed

end
